theory Spec2Isabelle
  imports Main "HOL-Library.Sublist" "HOL-Library.AList"
begin

section \<open>Python string operations\<close>

text \<open>
  Strings are lists of characters with code points below 256. \<open>str.strip()\<close> and
  \<open>str.split()\<close> without arguments treat as whitespace the characters for which
  \<open>str.isspace\<close> holds; below 256 these are the code points 9 to 13, 28 to 32, 0x85
  (next line) and 0xA0 (no-break space), listed below.
\<close>

definition is_space :: "char \<Rightarrow> bool" where
  "is_space c = (c \<in> set [CHR 0x09, CHR 0x0A, CHR 0x0B, CHR 0x0C, CHR 0x0D,
                           CHR 0x1C, CHR 0x1D, CHR 0x1E, CHR 0x1F, CHR 0x20,
                           CHR 0x85, CHR 0xA0])"

definition strip :: "string \<Rightarrow> string" where
  "strip s = rev (dropWhile is_space (rev (dropWhile is_space s)))"




text \<open>
  \<open>s.split()\<close>: the maximal runs of non-whitespace characters, in order. \<open>cur\<close> is the
  run being read.
\<close>

fun split_from :: "string \<Rightarrow> string \<Rightarrow> string list" where
  "split_from cur [] = (if cur = [] then [] else [cur])"
| "split_from cur (c # cs) =
     (if is_space c then (if cur = [] then split_from [] cs else cur # split_from [] cs)
      else split_from (cur @ [c]) cs)"

definition split :: "string \<Rightarrow> string list" where
  "split s = split_from [] s"



section \<open>Master key manager (ssh/master\_key\_manager.py)\<close>

text \<open>
  The files that \<open>MasterKeyManager\<close> works on: the key directory, the private key file
  \<open>master_ed25519\<close>, the public key file \<open>master_ed25519.pub\<close> (each absent or holding
  its text), and the number of times \<open>ssh-keygen\<close> has been started on them.
\<close>

record key_files =
  ssh_dir_exists :: bool
  key_path :: "string option"
  pub_key_path :: "string option"
  keygen_runs :: nat

text \<open>
  What the world outside the function does during one call: whether \<open>mkdir\<close> raises (and
  with which message), the host name, and how the \<open>ssh-keygen\<close> subprocess ends.
  A subprocess that completes returns its exit status and output. \<open>ssh-keygen\<close> exits with
  status 0 exactly when it has written the key pair, whose text is \<open>generated_private\<close> and
  \<open>generated_public\<close>; with any other status or an exception the key files stay as they
  were.
\<close>

record completed_process =
  returncode :: int
  stdout :: string
  stderr :: string

datatype run_outcome =
    Completed completed_process
  | FileNotFoundError
  | TimeoutExpired
  | OtherException string

record keygen_env =
  mkdir_error :: "string option"
  hostname_of_master :: string
  keygen_run :: run_outcome
  generated_private :: string
  generated_public :: string

definition ensure_key_exists :: "keygen_env \<Rightarrow> key_files \<Rightarrow> (bool \<times> string) \<times> key_files" where
  "ensure_key_exists env fs =
     (if key_path fs \<noteq> None \<and> pub_key_path fs \<noteq> None
      then ((True, ''Key already exists''), fs)
      else
        (case mkdir_error env of
           Some e \<Rightarrow> ((False, ''Failed to create .ssh directory: '' @ e), fs)
         | None \<Rightarrow>
             (let fs1 = fs\<lparr>ssh_dir_exists := True, keygen_runs := Suc (keygen_runs fs)\<rparr>;
                  comment = ''master@'' @ hostname_of_master env
              in case keygen_run env of
                   Completed result \<Rightarrow>
                     if returncode result \<noteq> 0
                     then (let error = (if strip (stderr result) \<noteq> [] then strip (stderr result)
                                        else strip (stdout result))
                           in ((False, ''Key generation failed: '' @ error), fs1))
                     else ((True, ''Generated new key: '' @ comment),
                           fs1\<lparr>key_path := Some (generated_private env),
                               pub_key_path := Some (generated_public env)\<rparr>)
                 | FileNotFoundError \<Rightarrow> ((False, ''ssh-keygen not found''), fs1)
                 | TimeoutExpired \<Rightarrow> ((False, ''Key generation timed out''), fs1)
                 | OtherException e \<Rightarrow> ((False, e), fs1))))"

section \<open>Authorized keys on the device (sut\_client/ssh\_setup.py)\<close>






section \<open>JSON values and Python truthiness\<close>

text \<open>
  The payloads that \<open>receive_json\<close> returns and \<open>send_json\<close> sends. An object is the
  association list of its members as the parsed \<open>dict\<close> holds them. Values taken out of a
  payload with \<open>.get\<close> are passed on as they are, so the fields of a device record that come
  from a payload hold JSON values; Python's \<open>None\<close> is \<open>JNull\<close>. Floating-point numbers are
  not represented.
\<close>

datatype json =
    JNull
  | JBool bool
  | JInt int
  | JStr string
  | JList "json list"
  | JObj "(string \<times> json) list"

text \<open>\<open>bool(v)\<close>, as \<open>if v:\<close> evaluates it.\<close>

fun py_truthy :: "json \<Rightarrow> bool" where
  "py_truthy JNull = False"
| "py_truthy (JBool b) = b"
| "py_truthy (JInt i) = (i \<noteq> 0)"
| "py_truthy (JStr s) = (s \<noteq> [])"
| "py_truthy (JList xs) = (xs \<noteq> [])"
| "py_truthy (JObj kvs) = (kvs \<noteq> [])"

text \<open>\<open>d.get(key, default)\<close> on a \<open>dict\<close>.\<close>

definition dict_get :: "(string \<times> json) list \<Rightarrow> string \<Rightarrow> json \<Rightarrow> json" where
  "dict_get d key dflt = (case map_of d key of Some v \<Rightarrow> v | None \<Rightarrow> dflt)"

text \<open>The member of an object with a given name, if the value is an object that has it.\<close>

definition json_field :: "json \<Rightarrow> string \<Rightarrow> json option" where
  "json_field v key = (case v of JObj d \<Rightarrow> map_of d key | _ \<Rightarrow> None)"

section \<open>Device registry\<close>

text \<open>
  The device record (\<open>SUTDevice\<close>) with the fields that api/suts.py reads and the data model
  lists. Time stamps are clock readings in \<open>nat\<close>. The registry holds the primary dictionary
  \<open>devices\<close> (keyed by \<open>unique_id\<close>), the secondary dictionary \<open>ip_to_id_mapping\<close>, the
  durable list of paired identities with the number of times it has been written, the
  bound on the length of a binding history, and the rule by which the registry gives a
  session identifier to a device it registers (from the record it holds for the device, if
  any). Dictionaries are association lists in insertion order with one entry per key.
\<close>

record device =
  unique_id :: string
  ip :: json
  port :: json
  hostname :: json
  cpu_model :: json
  display_name :: json
  capabilities :: json
  is_online :: bool
  last_seen :: nat
  is_paired :: bool
  paired_by :: "string option"
  paired_at :: "nat option"
  session_id :: nat
  last_ip_change :: "nat option"
  binding_history :: "(json \<times> nat) list"
  ssh_public_key :: json
  ssh_fingerprint :: json
  master_key_installed :: bool
  master_key_installed_at :: "nat option"

record registry =
  devices :: "(string \<times> device) list"
  ip_to_id_mapping :: "(json \<times> string) list"
  paired_file :: "string list"
  paired_file_writes :: nat
  history_limit :: nat
  session_rule :: "device option \<Rightarrow> nat"

text \<open>
  Modelled from the spec: \<open>DeviceRegistry.get_device_by_id\<close> (the discovery package is not
  among the sources). A read through the primary index.
\<close>

definition get_device_by_id :: "registry \<Rightarrow> string \<Rightarrow> device option" where
  "get_device_by_id reg uid = map_of (devices reg) uid"

text \<open>
  Modelled from the spec: \<open>DeviceRegistry.get_device_by_ip\<close>. A read through the secondary
  index and then the primary one.
\<close>

definition get_device_by_ip :: "registry \<Rightarrow> json \<Rightarrow> device option" where
  "get_device_by_ip reg addr =
     (case map_of (ip_to_id_mapping reg) addr of
        None \<Rightarrow> None
      | Some uid \<Rightarrow> map_of (devices reg) uid)"

text \<open>
  Modelled from the spec: \<open>DeviceRegistry.save_paired_devices\<close>. The durable paired-device
  set is rewritten wholesale from the identities of the records that are paired.
\<close>

definition save_paired_devices :: "registry \<Rightarrow> registry" where
  "save_paired_devices reg =
     reg\<lparr>paired_file := map fst (filter (\<lambda>(uid, d). is_paired d) (devices reg)),
         paired_file_writes := Suc (paired_file_writes reg)\<rparr>"

text \<open>
  Modelled from the spec: \<open>DeviceRegistry.mark_device_offline\<close>. Sets the online state of
  the record to false; does not alter pairing; does not delete; an unknown identity is left
  alone.
\<close>

definition mark_device_offline :: "registry \<Rightarrow> string \<Rightarrow> registry" where
  "mark_device_offline reg uid =
     (case map_of (devices reg) uid of
        None \<Rightarrow> reg
      | Some d \<Rightarrow> reg\<lparr>devices := AList.update uid (d\<lparr>is_online := False\<rparr>) (devices reg)\<rparr>)"

text \<open>
  Modelled from the spec: \<open>DeviceRegistry.update_master_key_status\<close>, the only writer of
  \<open>master_key_installed\<close>. Success is recorded with its time stamp.
\<close>

definition update_master_key_status :: "registry \<Rightarrow> nat \<Rightarrow> string \<Rightarrow> bool \<Rightarrow> registry" where
  "update_master_key_status reg now uid installed =
     (case map_of (devices reg) uid of
        None \<Rightarrow> reg
      | Some d \<Rightarrow>
          reg\<lparr>devices := AList.update uid
                 (d\<lparr>master_key_installed := installed,
                    master_key_installed_at := (if installed then Some now else None)\<rparr>)
                 (devices reg)\<rparr>)"

text \<open>The most recent \<open>n\<close> entries of a list.\<close>

definition keep_last :: "nat \<Rightarrow> 'a list \<Rightarrow> 'a list" where
  "keep_last n xs = drop (length xs - n) xs"

text \<open>
  Modelled from the spec: \<open>DeviceRegistry.register_device\<close>, the upsert. A first
  registration creates the record, online, unpaired, without the Master's key, with the
  display name defaulting to the host name. A later one merges: the values passed overwrite,
  the optional ones that are absent (\<open>None\<close>) preserve what is stored; \<open>last_seen\<close> is
  refreshed and the device is online. When the address differs from the stored one, the
  change is appended to the binding history (kept to its most recent entries),
  \<open>last_ip_change\<close> is set, and the reverse mapping of the old address is removed if it still
  points to this device. The secondary index then maps the address to this device. Returns
  the record after the upsert. The spec does not say how this operation sets the session
  identifier (the handler makes the same call for an admission and for a heartbeat), so the
  identifier is whatever \<open>session_rule\<close> of the registry gives, and the general theorems
  below hold for every such rule.
\<close>

definition register_device ::
    "registry \<Rightarrow> nat \<Rightarrow> json \<Rightarrow> json \<Rightarrow> string \<Rightarrow> json \<Rightarrow> json \<Rightarrow> json \<Rightarrow> json \<Rightarrow> json \<Rightarrow> json
       \<Rightarrow> device \<times> registry" where
  "register_device reg now ip' port' uid capabilities' hostname' cpu_model' display_name'
       ssh_public_key' ssh_fingerprint' =
     (case map_of (devices reg) uid of
        None \<Rightarrow>
          (let d = \<lparr>unique_id = uid, ip = ip', port = port', hostname = hostname',
                    cpu_model = cpu_model',
                    display_name = (if display_name' = JNull then hostname' else display_name'),
                    capabilities = capabilities', is_online = True, last_seen = now,
                    is_paired = False, paired_by = None, paired_at = None,
                    session_id = session_rule reg None,
                    last_ip_change = None, binding_history = [],
                    ssh_public_key = ssh_public_key', ssh_fingerprint = ssh_fingerprint',
                    master_key_installed = False, master_key_installed_at = None\<rparr>
           in (d, reg\<lparr>devices := AList.update uid d (devices reg),
                       ip_to_id_mapping := AList.update ip' uid (ip_to_id_mapping reg)\<rparr>))
      | Some d0 \<Rightarrow>
          (let changed = (ip d0 \<noteq> ip');
               d = d0\<lparr>ip := ip', port := port', hostname := hostname',
                       capabilities := capabilities',
                       cpu_model := (if cpu_model' = JNull then cpu_model d0 else cpu_model'),
                       display_name :=
                         (if display_name' = JNull then display_name d0 else display_name'),
                       ssh_public_key :=
                         (if ssh_public_key' = JNull then ssh_public_key d0 else ssh_public_key'),
                       ssh_fingerprint :=
                         (if ssh_fingerprint' = JNull then ssh_fingerprint d0
                          else ssh_fingerprint'),
                       is_online := True, last_seen := now,
                       session_id := session_rule reg (Some d0),
                       last_ip_change := (if changed then Some now else last_ip_change d0),
                       binding_history :=
                         (if changed
                          then keep_last (history_limit reg) (binding_history d0 @ [(ip', now)])
                          else binding_history d0)\<rparr>;
               index0 = (if changed \<and> map_of (ip_to_id_mapping reg) (ip d0) = Some uid
                         then AList.delete (ip d0) (ip_to_id_mapping reg)
                         else ip_to_id_mapping reg)
           in (d, reg\<lparr>devices := AList.update uid d (devices reg),
                       ip_to_id_mapping := AList.update ip' uid index0\<rparr>)))"

text \<open>
  A rule for session identifiers that gives a fresh one on every registration, and the
  registry before any device has registered, with that rule.
\<close>

definition fresh_session :: "device option \<Rightarrow> nat" where
  "fresh_session stored = (case stored of None \<Rightarrow> 1 | Some d \<Rightarrow> Suc (session_id d))"

definition empty_registry :: registry where
  "empty_registry =
     \<lparr>devices = [], ip_to_id_mapping = [], paired_file = [], paired_file_writes = 0,
      history_limit = 10, session_rule = fresh_session\<rparr>"

text \<open>
  Consistency of the secondary index with the primary dictionary: every entry of the index
  leads to a record that is present and whose stored address is the address of the entry.
\<close>

definition index_consistent :: "registry \<Rightarrow> bool" where
  "index_consistent r =
     list_all (\<lambda>(addr, uid).
        case map_of (devices r) uid of None \<Rightarrow> False | Some d \<Rightarrow> ip d = addr)
       (ip_to_id_mapping r)"

text \<open>
  The state of the secondary index that the registry keeps: one entry per address, each
  consistent with the primary dictionary.
\<close>

definition registry_invariant :: "registry \<Rightarrow> bool" where
  "registry_invariant r =
     (distinct (map fst (ip_to_id_mapping r)) \<and> index_consistent r)"

text \<open>
  Modelled from the spec: \<open>DeviceRegistry.pair_device\<close>. False for an unknown identity;
  otherwise the record is paired, by whom and when is recorded, and the paired set is
  persisted.
\<close>

definition pair_device :: "registry \<Rightarrow> nat \<Rightarrow> string \<Rightarrow> string \<Rightarrow> bool \<times> registry" where
  "pair_device r now uid who =
     (case map_of (devices r) uid of
        None \<Rightarrow> (False, r)
      | Some d \<Rightarrow>
          (True, save_paired_devices
             (r\<lparr>devices := AList.update uid
                   (d\<lparr>is_paired := True, paired_by := Some who, paired_at := Some now\<rparr>)
                   (devices r)\<rparr>)))"

section \<open>Connection manager\<close>

text \<open>
  The live transport sessions, one per connected device, each with the payload it was
  admitted with and the messages sent to the device over it so far.
\<close>

record connection =
  init_payload :: json
  outbox :: "json list"

type_synonym ws_manager = "(string \<times> connection) list"

text \<open>
  Modelled from the spec: \<open>ws_manager.connect\<close>. Admits a new session for the identity; a
  session that already exists for it is closed and replaced.
\<close>

definition connect :: "ws_manager \<Rightarrow> string \<Rightarrow> json \<Rightarrow> ws_manager" where
  "connect ws uid payload = AList.update uid \<lparr>init_payload = payload, outbox = []\<rparr> ws"

text \<open>
  Modelled from the spec: \<open>ws_manager.disconnect\<close>. Idempotent: closing an absent session
  changes nothing.
\<close>

definition disconnect :: "ws_manager \<Rightarrow> string \<Rightarrow> ws_manager" where
  "disconnect ws uid = AList.delete uid ws"

text \<open>
  Modelled from the spec: \<open>ws_manager.send_to_device\<close>. False, and no error, if the device
  is not connected; otherwise the message goes out over the session of the device.
\<close>

definition send_to_device :: "ws_manager \<Rightarrow> string \<Rightarrow> json \<Rightarrow> bool \<times> ws_manager" where
  "send_to_device ws uid message =
     (case map_of ws uid of
        None \<Rightarrow> (False, ws)
      | Some c \<Rightarrow> (True, AList.update uid (c\<lparr>outbox := outbox c @ [message]\<rparr>) ws))"

text \<open>The messages sent so far to a device over its live session.\<close>

definition sent_to :: "ws_manager \<Rightarrow> string \<Rightarrow> json list" where
  "sent_to ws uid = (case map_of ws uid of None \<Rightarrow> [] | Some c \<Rightarrow> outbox c)"

record system =
  reg :: registry
  ws :: ws_manager

section \<open>Administrative endpoints (api/suts.py)\<close>

text \<open>\<open>HTTPException(status_code, detail)\<close>.\<close>

datatype http_error = HTTPException nat string

text \<open>A time stamp as it appears in a response (\<open>isoformat()\<close>), or \<open>None\<close>.\<close>

definition isoformat_or_none :: "nat option \<Rightarrow> json" where
  "isoformat_or_none t = (case t of None \<Rightarrow> JNull | Some n \<Rightarrow> JInt (int n))"

subsection \<open>delete\_sut\<close>

text \<open>
  \<open>delete_sut(unique_id, force)\<close>, the identity being \<open>uid\<close>. An exception is raised before anything is written, so the
  registry that comes back with an error is the one that went in.
\<close>

definition delete_sut :: "registry \<Rightarrow> string \<Rightarrow> bool \<Rightarrow> (http_error + json) \<times> registry" where
  "delete_sut registry uid force =
     (case get_device_by_id registry uid of
        None \<Rightarrow> (Inl (HTTPException 404 (''SUT '' @ uid @ '' not found'')), registry)
      | Some device \<Rightarrow>
          if is_paired device \<and> \<not> force
          then (Inl (HTTPException 400
                  (''SUT '' @ uid @
                   '' is paired. Use force=true to delete paired devices.'')), registry)
          else
            (let r1 = (if map_of (ip_to_id_mapping registry) (ip device) \<noteq> None
                       then registry\<lparr>ip_to_id_mapping :=
                              AList.delete (ip device) (ip_to_id_mapping registry)\<rparr>
                       else registry);
                 r2 = r1\<lparr>devices := AList.delete uid (devices r1)\<rparr>;
                 r3 = (if is_paired device then save_paired_devices r2 else r2)
             in (Inr (JObj [(''success'', JBool True),
                            (''message'', JStr (''SUT '' @ uid @ '' deleted successfully'')),
                            (''was_paired'', JBool (is_paired device))]), r3)))"

subsection \<open>trigger\_ssh\_exchange\<close>

text \<open>
  How the access to the Master's key ends: \<open>get_master_key_manager\<close> (or its import) raises,
  \<open>get_public_key\<close> raises, \<open>get_fingerprint\<close> raises after the public key has been read, or
  both return. A key or fingerprint that is not available is returned as \<open>None\<close>. The string
  carried by a raising case is \<open>str(e)\<close>.
\<close>

datatype master_key_access =
    ManagerRaises string
  | PublicKeyRaises string
  | FingerprintRaises json string
  | Retrieved json json

text \<open>
  \<open>trigger_ssh_exchange(unique_id, request)\<close>; \<open>request\<close> is the optional body with its
  \<open>force\<close> field. The \<open>HTTPException\<close> raised inside the \<open>try\<close> block for a missing key is
  caught by the handler of the same block and raised again with its text, which is the
  status code and the detail.
\<close>

definition install_master_key_message :: "json \<Rightarrow> json \<Rightarrow> bool \<Rightarrow> json" where
  "install_master_key_message master_public_key master_fingerprint force =
     JObj [(''type'', JStr ''install_master_key''),
           (''master_public_key'', master_public_key),
           (''master_fingerprint'', master_fingerprint),
           (''force'', JBool force)]"

definition trigger_ssh_exchange ::
    "master_key_access \<Rightarrow> system \<Rightarrow> string \<Rightarrow> bool option \<Rightarrow> (http_error + json) \<times> system" where
  "trigger_ssh_exchange key_access s uid request =
     (let force = (case request of Some f \<Rightarrow> f | None \<Rightarrow> False) in
      case get_device_by_id (reg s) uid of
        None \<Rightarrow> (Inl (HTTPException 404 (''SUT '' @ uid @ '' not found'')), s)
      | Some device \<Rightarrow>
          if \<not> is_online device
          then (Inl (HTTPException 400 (''SUT '' @ uid @ '' is offline'')), s)
          else if master_key_installed device \<and> \<not> force
          then (Inr (JObj [(''success'', JBool True),
                           (''message'', JStr ''Master key already installed''),
                           (''master_key_installed'', JBool True),
                           (''installed_at'',
                              isoformat_or_none (master_key_installed_at device))]), s)
          else
            (case key_access of
               ManagerRaises e \<Rightarrow>
                 (Inl (HTTPException 500 (''Failed to get Master key: '' @ e)), s)
             | PublicKeyRaises e \<Rightarrow>
                 (Inl (HTTPException 500 (''Failed to get Master key: '' @ e)), s)
             | FingerprintRaises k e \<Rightarrow>
                 (Inl (HTTPException 500 (''Failed to get Master key: '' @ e)), s)
             | Retrieved master_public_key master_fingerprint \<Rightarrow>
                 if \<not> py_truthy master_public_key
                 then (Inl (HTTPException 500
                         (''Failed to get Master key: '' @
                          ''500: Master SSH key not available'')), s)
                 else
                   (case send_to_device (ws s) uid
                           (install_master_key_message master_public_key master_fingerprint force)
                    of (success, ws') \<Rightarrow>
                      if \<not> success
                      then (Inl (HTTPException 500 ''Failed to send key exchange request''),
                            s\<lparr>ws := ws'\<rparr>)
                      else (Inr (JObj [(''success'', JBool True),
                                       (''message'', JStr ''Key exchange request sent''),
                                       (''master_fingerprint'', master_fingerprint),
                                       (''force'', JBool force)]),
                            s\<lparr>ws := ws'\<rparr>))))"

text \<open>Whether the access to the Master's key ended in an exception.\<close>

fun key_access_raises :: "master_key_access \<Rightarrow> bool" where
  "key_access_raises (Retrieved k f) = False"
| "key_access_raises _ = True"

section \<open>Device sessions (api/suts.py, websocket\_sut\_endpoint)\<close>

text \<open>
  What \<open>receive_json\<close> yields: a payload, the exception \<open>WebSocketDisconnect\<close>, or another
  exception (text that is not JSON, for one).
\<close>

datatype received = Received json | Disconnected | ReceiveError string

text \<open>
  What the collaborators of the registration do during one admission: whether
  \<open>ws_manager.connect\<close> raises; how \<open>key_store.add_key\<close> ends when it is called (it raises,
  or returns its success flag and message); and how the access to the Master's key ends.
\<close>

record admission_env =
  connect_error :: "string option"
  add_key_result :: "string + bool \<times> string"
  key_access :: master_key_access

text \<open>How the registration ends: the acknowledgment has been sent, or the handler has left.\<close>

datatype admission = Registered json | Closed

text \<open>The \<open>finally\<close> clause of the handler.\<close>

definition finally_cleanup :: "system \<Rightarrow> string \<Rightarrow> system" where
  "finally_cleanup s sut_id =
     s\<lparr>ws := disconnect (ws s) sut_id, reg := mark_device_offline (reg s) sut_id\<rparr>"

definition register_ack ::
    "string \<Rightarrow> bool \<Rightarrow> json \<Rightarrow> json \<Rightarrow> bool \<Rightarrow> nat \<Rightarrow> json" where
  "register_ack sut_id ssh_registered master_public_key master_fingerprint re_exchange_needed
       session =
     JObj [(''type'', JStr ''register_ack''),
           (''message'', JStr (''SUT '' @ sut_id @ '' registered successfully'')),
           (''sut_id'', JStr sut_id),
           (''ssh_registered'', JBool ssh_registered),
           (''master_public_key'', master_public_key),
           (''master_fingerprint'', master_fingerprint),
           (''re_exchange'', JBool re_exchange_needed),
           (''session_id'', JInt (int session))]"

text \<open>
  The registration part of the handler, from \<open>receive_json\<close> to the acknowledgment. A
  payload that is not an object has no \<open>get\<close>: the first \<open>init_data.get\<close> raises, after the
  connection manager has admitted the session. Every exception ends in the \<open>finally\<close>
  clause. Sending on the accepted transport is taken to succeed.
\<close>

definition websocket_register ::
    "admission_env \<Rightarrow> nat \<Rightarrow> system \<Rightarrow> string \<Rightarrow> received \<Rightarrow> admission \<times> system" where
  "websocket_register env now s sut_id first =
     (case first of
        Disconnected \<Rightarrow> (Closed, finally_cleanup s sut_id)
      | ReceiveError e \<Rightarrow> (Closed, finally_cleanup s sut_id)
      | Received init_data \<Rightarrow>
          (case connect_error env of
             Some e \<Rightarrow> (Closed, finally_cleanup s sut_id)
           | None \<Rightarrow>
               (let s1 = s\<lparr>ws := connect (ws s) sut_id init_data\<rparr> in
                case init_data of
                  JObj init \<Rightarrow>
                    (let ssh_public_key' = dict_get init ''ssh_public_key'' JNull;
                         ssh_fingerprint' = dict_get init ''ssh_key_fingerprint'' JNull;
                         ssh_registered =
                           (if py_truthy ssh_public_key'
                            then (case add_key_result env of
                                    Inl e \<Rightarrow> False
                                  | Inr (success, msg) \<Rightarrow> success)
                            else False)
                     in case register_device (reg s1) now
                               (dict_get init ''ip'' (JStr ''unknown''))
                               (dict_get init ''port'' (JInt 8080))
                               sut_id
                               (dict_get init ''capabilities'' (JList []))
                               (dict_get init ''hostname'' (JStr ''''))
                               (dict_get init ''cpu_model'' JNull)
                               (dict_get init ''display_name'' JNull)
                               ssh_public_key' ssh_fingerprint'
                        of (device, registry') \<Rightarrow>
                          (let ack =
                             (case key_access env of
                                ManagerRaises e \<Rightarrow>
                                  register_ack sut_id ssh_registered JNull JNull False
                                    (session_id device)
                              | PublicKeyRaises e \<Rightarrow>
                                  register_ack sut_id ssh_registered JNull JNull False
                                    (session_id device)
                              | FingerprintRaises master_public_key e \<Rightarrow>
                                  register_ack sut_id ssh_registered master_public_key JNull False
                                    (session_id device)
                              | Retrieved master_public_key master_fingerprint \<Rightarrow>
                                  register_ack sut_id ssh_registered master_public_key
                                    master_fingerprint (\<not> master_key_installed device)
                                    (session_id device))
                           in (Registered ack, s1\<lparr>reg := registry'\<rparr>)))
                | _ \<Rightarrow> (Closed, finally_cleanup s1 sut_id))))"

text \<open>
  One turn of the message loop: what the handler sends back, or that it leaves the loop, and
  the registry afterwards. \<open>init\<close> is the registration payload of the session. A received
  value that is not an object has no \<open>get\<close>, and the exception ends the handler like any
  exception other than \<open>WebSocketDisconnect\<close>, which breaks the loop.
\<close>

datatype turn = Replies "json list" | Leaves

definition handle_message ::
    "nat \<Rightarrow> registry \<Rightarrow> string \<Rightarrow> (string \<times> json) list \<Rightarrow> received \<Rightarrow> turn \<times> registry" where
  "handle_message now registry sut_id init incoming =
     (case incoming of
        Disconnected \<Rightarrow> (Leaves, registry)
      | ReceiveError e \<Rightarrow> (Leaves, registry)
      | Received message \<Rightarrow>
          (case message of
             JObj msg \<Rightarrow>
               (let msg_type = dict_get msg ''type'' JNull in
                if msg_type = JStr ''heartbeat''
                then (Replies [JObj [(''type'', JStr ''heartbeat_ack'')]],
                      snd (register_device registry now
                             (dict_get init ''ip'' (JStr ''unknown''))
                             (dict_get init ''port'' (JInt 8080))
                             sut_id
                             (dict_get init ''capabilities'' (JList []))
                             (dict_get init ''hostname'' (JStr ''''))
                             JNull JNull JNull JNull))
                else if msg_type = JStr ''status_update''
                then (Replies [], registry)
                else if msg_type = JStr ''master_key_installed''
                then
                  (let success = dict_get msg ''success'' (JBool False) in
                   if py_truthy success
                   then (Replies [JObj [(''type'', JStr ''master_key_installed_ack''),
                                        (''success'', JBool True)]],
                         update_master_key_status registry now sut_id True)
                   else
                     (let error = dict_get msg ''error'' (JStr ''Unknown error'')
                      in (Replies [JObj [(''type'', JStr ''master_key_installed_ack''),
                                         (''success'', JBool False),
                                         (''error'', error)]],
                          registry)))
                else (Replies [], registry))
           | _ \<Rightarrow> (Leaves, registry)))"

text \<open>
  The loop over the values received one after the other, each with the time of its receipt:
  everything sent, the registry at the end, and whether the handler is still in the loop.
\<close>

fun message_loop ::
    "registry \<Rightarrow> string \<Rightarrow> (string \<times> json) list \<Rightarrow> (nat \<times> received) list
       \<Rightarrow> json list \<times> registry \<times> bool" where
  "message_loop registry sut_id init [] = ([], registry, True)"
| "message_loop registry sut_id init ((now, incoming) # rest) =
     (case handle_message now registry sut_id init incoming of
        (Leaves, registry') \<Rightarrow> ([], registry', False)
      | (Replies out, registry') \<Rightarrow>
          (case message_loop registry' sut_id init rest of
             (out', registry'', still_open) \<Rightarrow> (out @ out', registry'', still_open)))"

section \<open>Notification fan-out (api/suts.py, broadcast\_sse\_event)\<close>

text \<open>
  An observer is an \<open>asyncio.Queue\<close> held in the module-level set \<open>_sse_clients\<close>.
  The queue is modelled by its pending items, its capacity (\<open>maxsize\<close>, where 0 means
  unbounded, as \<open>asyncio.Queue()\<close> creates it in \<open>event_generator\<close>) and the flag that a
  shut-down queue carries. \<open>put_nowait\<close> never waits: it either stores the item or raises.
\<close>

datatype queue_error = QueueShutDown | QueueFull

record queue =
  items :: "string list"
  maxsize :: nat
  is_shutdown :: bool

definition full :: "queue \<Rightarrow> bool" where
  "full q = (if maxsize q = 0 then False else length (items q) \<ge> maxsize q)"

definition put_nowait :: "queue \<Rightarrow> string \<Rightarrow> queue_error + queue" where
  "put_nowait q item =
     (if is_shutdown q then Inl QueueShutDown
      else if full q then Inl QueueFull
      else Inr (q\<lparr>items := items q @ [item]\<rparr>))"

text \<open>
  The set of observers is a list of (identity, queue) pairs; the identity stands for the
  Python object, the list order for the iteration order of the set. The first loop of
  \<open>broadcast_sse_event\<close> enqueues into every queue in place and collects the ones whose
  \<open>put_nowait\<close> raised; the second loop discards them. \<open>event_data\<close> is the string that
  \<open>json.dumps\<close> produced.
\<close>

type_synonym sse_clients = "(nat \<times> queue) list"

fun enqueue_loop :: "string \<Rightarrow> sse_clients \<Rightarrow> nat list \<Rightarrow> sse_clients \<times> nat list" where
  "enqueue_loop event_data [] dead_clients = ([], dead_clients)"
| "enqueue_loop event_data ((c, q) # rest) dead_clients =
     (case put_nowait q event_data of
        Inl _ \<Rightarrow>
          (case enqueue_loop event_data rest (dead_clients @ [c]) of
             (rest', dead) \<Rightarrow> ((c, q) # rest', dead))
      | Inr q' \<Rightarrow>
          (case enqueue_loop event_data rest dead_clients of
             (rest', dead) \<Rightarrow> ((c, q') # rest', dead)))"

definition discard :: "nat \<Rightarrow> sse_clients \<Rightarrow> sse_clients" where
  "discard client clients = filter (\<lambda>(c, q). c \<noteq> client) clients"

definition broadcast_sse_event :: "string \<Rightarrow> sse_clients \<Rightarrow> sse_clients" where
  "broadcast_sse_event event_data clients =
     (case enqueue_loop event_data clients [] of
        (clients', dead_clients) \<Rightarrow> fold discard dead_clients clients')"

text \<open>What one observer contributes to the observer set after a broadcast.\<close>

definition delivered :: "string \<Rightarrow> nat \<times> queue \<Rightarrow> (nat \<times> queue) option" where
  "delivered event_data cq =
     (case put_nowait (snd cq) event_data of
        Inl _ \<Rightarrow> None
      | Inr q' \<Rightarrow> Some (fst cq, q'))"

definition enqueue_fails :: "string \<Rightarrow> queue \<Rightarrow> bool" where
  "enqueue_fails event_data q = (case put_nowait q event_data of Inl _ \<Rightarrow> True | Inr _ \<Rightarrow> False)"

section \<open>Example states\<close>

text \<open>
  Device \<open>dev-1\<close> registers from 10.0.0.5 at time 1 and is paired by the operator at time 2.
\<close>

definition registry_one :: registry where
  "registry_one =
     snd (register_device empty_registry 1 (JStr ''10.0.0.5'') (JInt 8080) ''dev-1''
            (JList [JStr ''gpu'']) (JStr ''host-1'') JNull JNull JNull JNull)"

definition registry_paired :: registry where
  "registry_paired = snd (pair_device registry_one 2 ''dev-1'' ''operator'')"


text \<open>
  Device \<open>dev-1\<close> registers from 10.0.0.5 and its transport closes; the address is then
  handed to device \<open>dev-2\<close>, which registers from it at time 5.
\<close>

definition registry_reassigned :: registry where
  "registry_reassigned =
     snd (register_device (mark_device_offline registry_one ''dev-1'') 5
            (JStr ''10.0.0.5'') (JInt 8080) ''dev-2'' (JList []) (JStr ''host-2'')
            JNull JNull JNull JNull)"

text \<open>
  The system with \<open>dev-1\<close> registered, online and connected, and the system after its
  transport has closed.
\<close>

definition system_online :: system where
  "system_online =
     \<lparr>reg = registry_one,
      ws = connect [] ''dev-1'' (JObj [(''ip'', JStr ''10.0.0.5'')])\<rparr>"

definition system_offline :: system where
  "system_offline = \<lparr>reg = mark_device_offline registry_one ''dev-1'', ws = []\<rparr>"

text \<open>
  The system before any device has connected, and three environments of an admission: all
  collaborators work; the Master's public key cannot be read (\<open>get_public_key\<close> and
  \<open>get_fingerprint\<close> return \<open>None\<close>); the key manager cannot be loaded.
\<close>

definition system_empty :: system where
  "system_empty = \<lparr>reg = empty_registry, ws = []\<rparr>"

definition env_working :: admission_env where
  "env_working =
     \<lparr>connect_error = None, add_key_result = Inr (True, ''Key added''),
      key_access = Retrieved (JStr ''ssh-ed25519 AAAA master@lab'') (JStr ''SHA256:abc'')\<rparr>"

definition env_key_unreadable :: admission_env where
  "env_key_unreadable =
     \<lparr>connect_error = None, add_key_result = Inr (True, ''Key added''),
      key_access = Retrieved JNull JNull\<rparr>"

definition env_key_manager_down :: admission_env where
  "env_key_manager_down =
     \<lparr>connect_error = None, add_key_result = Inr (True, ''Key added''),
      key_access = ManagerRaises ''No module named ssh''\<rparr>"

text \<open>
  A registration payload, and the system after device \<open>dev-1\<close> has connected with it twice
  (the second session superseding the first) and the handler of the first session has then
  left through its \<open>finally\<close> clause, while the second session goes on.
\<close>

definition registration_payload :: "(string \<times> json) list" where
  "registration_payload =
     [(''ip'', JStr ''10.0.0.5''), (''port'', JInt 8080),
      (''capabilities'', JList [JStr ''gpu'']), (''hostname'', JStr ''host-1'')]"

definition system_superseded :: system where
  "system_superseded =
     finally_cleanup
       (snd (websocket_register env_working 2
          (snd (websocket_register env_working 1 system_empty ''dev-1''
                  (Received (JObj registration_payload))))
          ''dev-1'' (Received (JObj registration_payload))))
       ''dev-1''"

section \<open>Properties\<close>

subsection \<open>Master key manager\<close>

lemma ensure_key_exists_present:
  "key_path fs \<noteq> None \<and> pub_key_path fs \<noteq> None \<Longrightarrow>
     ensure_key_exists env fs = ((True, ''Key already exists''), fs)"
  by (simp add: ensure_key_exists_def)

lemma ensure_key_exists_success_present:
  assumes "ensure_key_exists env fs = ((True, msg), fs')"
  shows "key_path fs' \<noteq> None \<and> pub_key_path fs' \<noteq> None"
proof (cases "key_path fs \<noteq> None \<and> pub_key_path fs \<noteq> None")
  case True
  with assms show ?thesis by (simp add: ensure_key_exists_def)
next
  case False
  with assms show ?thesis
    by (auto simp: ensure_key_exists_def Let_def
             split: option.splits run_outcome.splits if_splits)
qed

text \<open>
  Claim C7. \<open>ensure_key_exists\<close> is a lazy one-time initialiser. While both key files exist,
  every call returns success and leaves the files as they are, without starting
  \<open>ssh-keygen\<close>. When a key file is missing (and the key directory can be created) the call
  starts \<open>ssh-keygen\<close> once, and when that completes with status 0 the call returns success
  with both files present. After any successful call, every later call returns
  \<open>Key already exists\<close> and changes nothing, whatever the environment does.
\<close>

theorem ensure_key_exists_lazy_once:
  "(key_path fs \<noteq> None \<and> pub_key_path fs \<noteq> None \<longrightarrow>
      ensure_key_exists env fs = ((True, ''Key already exists''), fs))
   \<and> (\<not> (key_path fs \<noteq> None \<and> pub_key_path fs \<noteq> None) \<and> mkdir_error env = None \<longrightarrow>
        keygen_runs (snd (ensure_key_exists env fs)) = Suc (keygen_runs fs)
        \<and> (\<forall>r. keygen_run env = Completed r \<and> returncode r = 0 \<longrightarrow>
              fst (fst (ensure_key_exists env fs))
              \<and> key_path (snd (ensure_key_exists env fs)) = Some (generated_private env)
              \<and> pub_key_path (snd (ensure_key_exists env fs)) = Some (generated_public env)))
   \<and> (\<forall>msg fs'. ensure_key_exists env fs = ((True, msg), fs') \<longrightarrow>
        (\<forall>env'. ensure_key_exists env' fs' = ((True, ''Key already exists''), fs')))"
proof (intro conjI impI allI)
  assume "key_path fs \<noteq> None \<and> pub_key_path fs \<noteq> None"
  then show "ensure_key_exists env fs = ((True, ''Key already exists''), fs)"
    by (rule ensure_key_exists_present)
next
  assume a: "\<not> (key_path fs \<noteq> None \<and> pub_key_path fs \<noteq> None) \<and> mkdir_error env = None"
  then show "keygen_runs (snd (ensure_key_exists env fs)) = Suc (keygen_runs fs)"
    by (auto simp: ensure_key_exists_def Let_def split: run_outcome.splits)
  fix r
  assume "keygen_run env = Completed r \<and> returncode r = 0"
  with a show "fst (fst (ensure_key_exists env fs))"
    and "key_path (snd (ensure_key_exists env fs)) = Some (generated_private env)"
    and "pub_key_path (snd (ensure_key_exists env fs)) = Some (generated_public env)"
    by (auto simp: ensure_key_exists_def Let_def)
next
  fix msg fs' env'
  assume "ensure_key_exists env fs = ((True, msg), fs')"
  then have "key_path fs' \<noteq> None \<and> pub_key_path fs' \<noteq> None"
    by (rule ensure_key_exists_success_present)
  then show "ensure_key_exists env' fs' = ((True, ''Key already exists''), fs')"
    by (rule ensure_key_exists_present)
qed

theorem ensure_key_exists_lazy_once_witness:
  "ensure_key_exists
     \<lparr>mkdir_error = None, hostname_of_master = ''lab'',
      keygen_run = Completed \<lparr>returncode = 0, stdout = '''', stderr = ''''\<rparr>,
      generated_private = ''PRIV'', generated_public = ''ssh-ed25519 AAAA master@lab''\<rparr>
     \<lparr>ssh_dir_exists = False, key_path = None, pub_key_path = None, keygen_runs = 0\<rparr>
   = ((True, ''Generated new key: master@lab''),
      \<lparr>ssh_dir_exists = True, key_path = Some ''PRIV'',
       pub_key_path = Some ''ssh-ed25519 AAAA master@lab'', keygen_runs = 1\<rparr>)
   \<and> ensure_key_exists
     \<lparr>mkdir_error = Some ''denied'', hostname_of_master = ''lab'',
      keygen_run = FileNotFoundError, generated_private = '''', generated_public = ''''\<rparr>
     \<lparr>ssh_dir_exists = True, key_path = Some ''PRIV'',
      pub_key_path = Some ''ssh-ed25519 AAAA master@lab'', keygen_runs = 1\<rparr>
   = ((True, ''Key already exists''),
      \<lparr>ssh_dir_exists = True, key_path = Some ''PRIV'',
       pub_key_path = Some ''ssh-ed25519 AAAA master@lab'', keygen_runs = 1\<rparr>)"
proof -
  let ?env = "\<lparr>mkdir_error = None, hostname_of_master = ''lab'',
      keygen_run = Completed \<lparr>returncode = 0, stdout = '''', stderr = ''''\<rparr>,
      generated_private = ''PRIV'', generated_public = ''ssh-ed25519 AAAA master@lab''\<rparr>"
  let ?fs = "\<lparr>ssh_dir_exists = False, key_path = None, pub_key_path = None, keygen_runs = 0\<rparr>"
  let ?fs' = "\<lparr>ssh_dir_exists = True, key_path = Some ''PRIV'',
       pub_key_path = Some ''ssh-ed25519 AAAA master@lab'', keygen_runs = 1\<rparr>"
  have absent: "\<not> (key_path ?fs \<noteq> None \<and> pub_key_path ?fs \<noteq> None) \<and> mkdir_error ?env = None"
    by simp
  have ok: "keygen_run ?env = Completed \<lparr>returncode = 0, stdout = '''', stderr = ''''\<rparr>
            \<and> returncode \<lparr>returncode = 0, stdout = '''', stderr = ''''\<rparr> = 0"
    by simp
  have first: "ensure_key_exists ?env ?fs = ((True, ''Generated new key: master@lab''), ?fs')"
    by (simp add: ensure_key_exists_def)
  note t = ensure_key_exists_lazy_once [of ?fs ?env]
  from t absent ok have "fst (fst (ensure_key_exists ?env ?fs))" by blast
  from t first have
    "\<forall>env'. ensure_key_exists env' ?fs' = ((True, ''Key already exists''), ?fs')"
    by blast
  with first show ?thesis by blast
qed

subsection \<open>Authorized keys on the device\<close>









subsection \<open>Registry operations\<close>

lemma register_device_lookup:
  "map_of (devices (snd (register_device r now i p u c h cm dn pk fp))) v =
     (if v = u then Some (fst (register_device r now i p u c h cm dn pk fp))
      else map_of (devices r) v)"
  by (simp add: register_device_def Let_def update_conv split: option.splits)

lemma register_device_master_key_installed:
  "master_key_installed (fst (register_device r now i p u c h cm dn pk fp)) =
     (case map_of (devices r) u of None \<Rightarrow> False | Some d0 \<Rightarrow> master_key_installed d0)"
  by (simp add: register_device_def Let_def split: option.splits)

lemma register_device_same:
  assumes "map_of (devices r) u = Some d" and "is_online d"
      and "ip d = i" and "port d = p" and "capabilities d = c" and "hostname d = h"
  shows "fst (register_device r now i p u c h JNull JNull JNull JNull) =
           d\<lparr>last_seen := now, session_id := session_rule r (Some d)\<rparr>"
  using assms by (cases d) (simp add: register_device_def Let_def)

lemma mark_device_offline_lookup:
  "map_of (devices (mark_device_offline r u)) v =
     (if v = u then map_option (\<lambda>d. d\<lparr>is_online := False\<rparr>) (map_of (devices r) u)
      else map_of (devices r) v)"
  by (simp add: mark_device_offline_def update_conv split: option.splits)

lemma update_master_key_status_lookup:
  "map_of (devices (update_master_key_status r now u b)) v =
     (if v = u
      then map_option (\<lambda>d. d\<lparr>master_key_installed := b,
                               master_key_installed_at := (if b then Some now else None)\<rparr>)
             (map_of (devices r) u)
      else map_of (devices r) v)"
  by (simp add: update_master_key_status_def update_conv split: option.splits)

lemma register_device_existing:
  assumes "map_of (devices r) u = Some d"
  shows "fst (register_device r now i p u c h JNull JNull JNull JNull) =
     d\<lparr>ip := i, port := p, hostname := h, capabilities := c, is_online := True,
        last_seen := now, session_id := session_rule r (Some d),
        last_ip_change := (if ip d \<noteq> i then Some now else last_ip_change d),
        binding_history :=
          (if ip d \<noteq> i then keep_last (history_limit r) (binding_history d @ [(i, now)])
           else binding_history d)\<rparr>"
  using assms by (cases d) (simp add: register_device_def Let_def)

lemma register_device_new:
  assumes "map_of (devices r) u = None"
  shows "fst (register_device r now i p u c h JNull JNull JNull JNull) =
     \<lparr>unique_id = u, ip = i, port = p, hostname = h, cpu_model = JNull, display_name = h,
      capabilities = c, is_online = True, last_seen = now, is_paired = False,
      paired_by = None, paired_at = None, session_id = session_rule r None,
      last_ip_change = None, binding_history = [], ssh_public_key = JNull,
      ssh_fingerprint = JNull, master_key_installed = False,
      master_key_installed_at = None\<rparr>"
  using assms by (simp add: register_device_def Let_def)

subsection \<open>Administrative delete\<close>



lemma delete_sut_registry:
  assumes "get_device_by_id r u = Some d" and "\<not> is_paired d \<or> force"
  shows "devices (snd (delete_sut r u force)) = AList.delete u (devices r)"
    and "ip_to_id_mapping (snd (delete_sut r u force)) = AList.delete (ip d) (ip_to_id_mapping r)"
    and "is_paired d \<Longrightarrow> paired_file (snd (delete_sut r u force)) =
           map fst (filter (\<lambda>(uid, d). is_paired d) (AList.delete u (devices r)))"
    and "is_paired d \<Longrightarrow>
           paired_file_writes (snd (delete_sut r u force)) = Suc (paired_file_writes r)"
    and "\<not> is_paired d \<Longrightarrow> paired_file (snd (delete_sut r u force)) = paired_file r"
    and "\<exists>resp. fst (delete_sut r u force) = Inr resp"
proof -
  have i: "map_of (ip_to_id_mapping r) (ip d) = None \<Longrightarrow>
        AList.delete (ip d) (ip_to_id_mapping r) = ip_to_id_mapping r"
    by (simp add: map_of_eq_None_iff delete_id)
  show "devices (snd (delete_sut r u force)) = AList.delete u (devices r)"
    using assms by (auto simp: delete_sut_def Let_def save_paired_devices_def)
  show "ip_to_id_mapping (snd (delete_sut r u force)) = AList.delete (ip d) (ip_to_id_mapping r)"
    using assms i by (auto simp: delete_sut_def Let_def save_paired_devices_def)
  show "is_paired d \<Longrightarrow> paired_file (snd (delete_sut r u force)) =
           map fst (filter (\<lambda>(uid, d). is_paired d) (AList.delete u (devices r)))"
    using assms by (auto simp: delete_sut_def Let_def save_paired_devices_def)
  show "is_paired d \<Longrightarrow>
           paired_file_writes (snd (delete_sut r u force)) = Suc (paired_file_writes r)"
    using assms by (auto simp: delete_sut_def Let_def save_paired_devices_def)
  show "\<not> is_paired d \<Longrightarrow> paired_file (snd (delete_sut r u force)) = paired_file r"
    using assms by (auto simp: delete_sut_def Let_def save_paired_devices_def)
  show "\<exists>resp. fst (delete_sut r u force) = Inr resp"
    using assms by (auto simp: delete_sut_def Let_def)
qed


text \<open>
  A delete keeps the secondary index consistent in the sense that every entry that remains
  leads to a record with that address.
\<close>

lemma delete_sut_index_consistent:
  assumes "index_consistent r"
  shows "index_consistent (snd (delete_sut r u force))"
proof (cases "get_device_by_id r u")
  case None
  with assms show ?thesis by (simp add: delete_sut_def)
next
  case (Some d)
  show ?thesis
  proof (cases "is_paired d \<and> \<not> force")
    case True
    with Some assms show ?thesis by (simp add: delete_sut_def)
  next
    case False
    then have f: "\<not> is_paired d \<or> force" by simp
    note del = delete_sut_registry [OF Some f]
    have "case map_of (AList.delete u (devices r)) v of None \<Rightarrow> False | Some d' \<Rightarrow> ip d' = a"
      if m: "(a, v) \<in> set (AList.delete (ip d) (ip_to_id_mapping r))" for a v
    proof -
      from m have in_r: "(a, v) \<in> set (ip_to_id_mapping r)" and ne: "a \<noteq> ip d"
        by (auto simp: AList.delete_eq)
      from assms in_r obtain d' where d': "map_of (devices r) v = Some d'" "ip d' = a"
        by (auto simp: index_consistent_def list_all_iff split: option.splits)
      have "v \<noteq> u"
      proof
        assume "v = u"
        with d' Some have "d' = d" by (simp add: get_device_by_id_def)
        with d'(2) ne show False by simp
      qed
      with d' show ?thesis by (simp add: delete_conv)
    qed
    then show ?thesis
      unfolding index_consistent_def del(1) del(2) list_all_iff by auto
  qed
qed

lemma registry_one_eval:
  "registry_one =
     \<lparr>devices =
        [(''dev-1'',
          \<lparr>unique_id = ''dev-1'', ip = JStr ''10.0.0.5'', port = JInt 8080,
           hostname = JStr ''host-1'', cpu_model = JNull, display_name = JStr ''host-1'',
           capabilities = JList [JStr ''gpu''], is_online = True, last_seen = 1,
           is_paired = False, paired_by = None, paired_at = None, session_id = 1,
           last_ip_change = None, binding_history = [], ssh_public_key = JNull,
           ssh_fingerprint = JNull, master_key_installed = False,
           master_key_installed_at = None\<rparr>)],
      ip_to_id_mapping = [(JStr ''10.0.0.5'', ''dev-1'')], paired_file = [],
      paired_file_writes = 0, history_limit = 10, session_rule = fresh_session\<rparr>"
  by (simp add: registry_one_def register_device_def empty_registry_def Let_def fresh_session_def)

lemma registry_paired_eval:
  "registry_paired =
     \<lparr>devices =
        [(''dev-1'',
          \<lparr>unique_id = ''dev-1'', ip = JStr ''10.0.0.5'', port = JInt 8080,
           hostname = JStr ''host-1'', cpu_model = JNull, display_name = JStr ''host-1'',
           capabilities = JList [JStr ''gpu''], is_online = True, last_seen = 1,
           is_paired = True, paired_by = Some ''operator'', paired_at = Some 2, session_id = 1,
           last_ip_change = None, binding_history = [], ssh_public_key = JNull,
           ssh_fingerprint = JNull, master_key_installed = False,
           master_key_installed_at = None\<rparr>)],
      ip_to_id_mapping = [(JStr ''10.0.0.5'', ''dev-1'')], paired_file = [''dev-1''],
      paired_file_writes = 1, history_limit = 10, session_rule = fresh_session\<rparr>"
  by (simp add: registry_paired_def registry_one_eval pair_device_def save_paired_devices_def)

lemma registry_reassigned_eval:
  "registry_reassigned =
     \<lparr>devices =
        [(''dev-1'',
          \<lparr>unique_id = ''dev-1'', ip = JStr ''10.0.0.5'', port = JInt 8080,
           hostname = JStr ''host-1'', cpu_model = JNull, display_name = JStr ''host-1'',
           capabilities = JList [JStr ''gpu''], is_online = False, last_seen = 1,
           is_paired = False, paired_by = None, paired_at = None, session_id = 1,
           last_ip_change = None, binding_history = [], ssh_public_key = JNull,
           ssh_fingerprint = JNull, master_key_installed = False,
           master_key_installed_at = None\<rparr>),
         (''dev-2'',
          \<lparr>unique_id = ''dev-2'', ip = JStr ''10.0.0.5'', port = JInt 8080,
           hostname = JStr ''host-2'', cpu_model = JNull, display_name = JStr ''host-2'',
           capabilities = JList [], is_online = True, last_seen = 5,
           is_paired = False, paired_by = None, paired_at = None, session_id = 1,
           last_ip_change = None, binding_history = [], ssh_public_key = JNull,
           ssh_fingerprint = JNull, master_key_installed = False,
           master_key_installed_at = None\<rparr>)],
      ip_to_id_mapping = [(JStr ''10.0.0.5'', ''dev-2'')], paired_file = [],
      paired_file_writes = 0, history_limit = 10, session_rule = fresh_session\<rparr>"
  by (simp add: registry_reassigned_def registry_one_eval mark_device_offline_def
                register_device_def Let_def fresh_session_def)



text \<open>
  Claim C2 at a state that registrations reach: \<open>dev-1\<close> went offline with the address
  10.0.0.5 still in its record, and the address was then registered by \<open>dev-2\<close>, so the index
  entry of that address belongs to \<open>dev-2\<close> and the index is consistent. Deleting \<open>dev-1\<close>
  removes the entry of the address whoever owns it: afterwards \<open>dev-2\<close> is still online at
  10.0.0.5 and no longer found by its address.
\<close>

theorem delete_sut_removes_entry_of_other_device:
  "index_consistent registry_reassigned
   \<and> map_of (ip_to_id_mapping registry_reassigned) (JStr ''10.0.0.5'') = Some ''dev-2''
   \<and> map_option ip (get_device_by_id registry_reassigned ''dev-1'') = Some (JStr ''10.0.0.5'')
   \<and> \<not> isl (fst (delete_sut registry_reassigned ''dev-1'' False))
   \<and> map_of (ip_to_id_mapping (snd (delete_sut registry_reassigned ''dev-1'' False)))
         (JStr ''10.0.0.5'') = None
   \<and> map_option ip (get_device_by_id (snd (delete_sut registry_reassigned ''dev-1'' False))
         ''dev-2'') = Some (JStr ''10.0.0.5'')
   \<and> map_option is_online (get_device_by_id (snd (delete_sut registry_reassigned ''dev-1'' False))
         ''dev-2'') = Some True
   \<and> get_device_by_ip (snd (delete_sut registry_reassigned ''dev-1'' False))
         (JStr ''10.0.0.5'') = None"
  by (simp add: registry_reassigned_eval index_consistent_def delete_sut_def
                get_device_by_id_def get_device_by_ip_def)

subsection \<open>Forced key re-exchange\<close>

lemma send_to_device_connected:
  assumes "map_of w u = Some c"
  shows "fst (send_to_device w u m)"
    and "sent_to (snd (send_to_device w u m)) u = sent_to w u @ [m]"
    and "v \<noteq> u \<Longrightarrow> sent_to (snd (send_to_device w u m)) v = sent_to w v"
  using assms by (simp_all add: send_to_device_def sent_to_def update_conv)

lemma trigger_ssh_exchange_offline:
  "get_device_by_id (reg s) u = Some d \<Longrightarrow> \<not> is_online d \<Longrightarrow>
     trigger_ssh_exchange ka s u request =
       (Inl (HTTPException 400 (''SUT '' @ u @ '' is offline'')), s)"
  by (simp add: trigger_ssh_exchange_def)

lemma trigger_ssh_exchange_sends:
  assumes "get_device_by_id (reg s) u = Some d" and "is_online d"
      and "py_truthy pk" and "map_of (ws s) u = Some c"
  shows "trigger_ssh_exchange (Retrieved pk fp) s u (Some True) =
     (Inr (JObj [(''success'', JBool True),
                 (''message'', JStr ''Key exchange request sent''),
                 (''master_fingerprint'', fp),
                 (''force'', JBool True)]),
      s\<lparr>ws := snd (send_to_device (ws s) u (install_master_key_message pk fp True))\<rparr>)"
  using assms by (simp add: trigger_ssh_exchange_def send_to_device_def)

lemma trigger_ssh_exchange_no_key:
  assumes "get_device_by_id (reg s) u = Some d" and "is_online d"
      and "\<forall>pk fp. ka = Retrieved pk fp \<longrightarrow> \<not> py_truthy pk"
  shows "\<exists>detail. trigger_ssh_exchange ka s u (Some True) = (Inl (HTTPException 500 detail), s)"
  using assms by (cases ka) (simp_all add: trigger_ssh_exchange_def)

text \<open>
  Claim C1, as the code has it. A forced key re-exchange for a device that is offline fails
  with status 400 and changes nothing, so no message is sent. For a device that is online
  with a live session, when the Master's public key is available, the request succeeds,
  sends exactly one \<open>install_master_key\<close> message over the session of that device and
  nothing to any other device, and leaves the registry, and with it
  \<open>master_key_installed\<close>, as it was. When the Master's public key is not available, or
  the connection manager holds no session for the device, the request fails with status 500
  and changes nothing.
\<close>

theorem trigger_ssh_exchange_forced:
  assumes "get_device_by_id (reg s) u = Some d"
  shows "(\<not> is_online d \<longrightarrow>
            trigger_ssh_exchange ka s u (Some True) =
              (Inl (HTTPException 400 (''SUT '' @ u @ '' is offline'')), s))
       \<and> (\<forall>pk fp. is_online d \<and> ka = Retrieved pk fp \<and> py_truthy pk \<and> map_of (ws s) u \<noteq> None
            \<longrightarrow> \<not> isl (fst (trigger_ssh_exchange ka s u (Some True)))
              \<and> reg (snd (trigger_ssh_exchange ka s u (Some True))) = reg s
              \<and> sent_to (ws (snd (trigger_ssh_exchange ka s u (Some True)))) u =
                  sent_to (ws s) u @ [install_master_key_message pk fp True]
              \<and> (\<forall>v. v \<noteq> u \<longrightarrow>
                    sent_to (ws (snd (trigger_ssh_exchange ka s u (Some True)))) v =
                    sent_to (ws s) v))
       \<and> (is_online d \<and> (\<forall>pk fp. ka = Retrieved pk fp \<longrightarrow> \<not> py_truthy pk) \<longrightarrow>
            (\<exists>detail. trigger_ssh_exchange ka s u (Some True) =
                        (Inl (HTTPException 500 detail), s)))
       \<and> (is_online d \<and> map_of (ws s) u = None \<longrightarrow>
            (\<exists>detail. trigger_ssh_exchange ka s u (Some True) =
                        (Inl (HTTPException 500 detail), s)))"
proof (intro conjI impI allI)
  assume "\<not> is_online d"
  with assms show "trigger_ssh_exchange ka s u (Some True) =
              (Inl (HTTPException 400 (''SUT '' @ u @ '' is offline'')), s)"
    by (rule trigger_ssh_exchange_offline)
next
  fix pk fp
  assume a: "is_online d \<and> ka = Retrieved pk fp \<and> py_truthy pk \<and> map_of (ws s) u \<noteq> None"
  then obtain c where c: "map_of (ws s) u = Some c" by auto
  from a have o: "is_online d" and k: "ka = Retrieved pk fp" and t: "py_truthy pk" by simp_all
  note r = trigger_ssh_exchange_sends [OF assms o t c, of fp]
  show "\<not> isl (fst (trigger_ssh_exchange ka s u (Some True)))"
    unfolding k r by simp
  show "reg (snd (trigger_ssh_exchange ka s u (Some True))) = reg s"
    unfolding k r by simp
  show "sent_to (ws (snd (trigger_ssh_exchange ka s u (Some True)))) u =
          sent_to (ws s) u @ [install_master_key_message pk fp True]"
    unfolding k r using send_to_device_connected(2) [OF c] by simp
  fix v
  assume "v \<noteq> u"
  then show "sent_to (ws (snd (trigger_ssh_exchange ka s u (Some True)))) v = sent_to (ws s) v"
    unfolding k r using send_to_device_connected(3) [OF c] by simp
next
  assume "is_online d \<and> (\<forall>pk fp. ka = Retrieved pk fp \<longrightarrow> \<not> py_truthy pk)"
  with assms show "\<exists>detail. trigger_ssh_exchange ka s u (Some True) =
                        (Inl (HTTPException 500 detail), s)"
    using trigger_ssh_exchange_no_key by blast
next
  assume "is_online d \<and> map_of (ws s) u = None"
  with assms show "\<exists>detail. trigger_ssh_exchange ka s u (Some True) =
                        (Inl (HTTPException 500 detail), s)"
    by (cases ka) (simp_all add: trigger_ssh_exchange_def send_to_device_def)
qed

lemma system_online_device:
  "get_device_by_id (reg system_online) ''dev-1'' =
     Some \<lparr>unique_id = ''dev-1'', ip = JStr ''10.0.0.5'', port = JInt 8080,
           hostname = JStr ''host-1'', cpu_model = JNull, display_name = JStr ''host-1'',
           capabilities = JList [JStr ''gpu''], is_online = True, last_seen = 1,
           is_paired = False, paired_by = None, paired_at = None, session_id = 1,
           last_ip_change = None, binding_history = [], ssh_public_key = JNull,
           ssh_fingerprint = JNull, master_key_installed = False,
           master_key_installed_at = None\<rparr>"
  by (simp add: system_online_def registry_one_eval get_device_by_id_def)

lemma system_offline_device:
  "get_device_by_id (reg system_offline) ''dev-1'' =
     Some \<lparr>unique_id = ''dev-1'', ip = JStr ''10.0.0.5'', port = JInt 8080,
           hostname = JStr ''host-1'', cpu_model = JNull, display_name = JStr ''host-1'',
           capabilities = JList [JStr ''gpu''], is_online = False, last_seen = 1,
           is_paired = False, paired_by = None, paired_at = None, session_id = 1,
           last_ip_change = None, binding_history = [], ssh_public_key = JNull,
           ssh_fingerprint = JNull, master_key_installed = False,
           master_key_installed_at = None\<rparr>"
  by (simp add: system_offline_def registry_one_eval get_device_by_id_def
                mark_device_offline_def)

theorem trigger_ssh_exchange_forced_witness:
  "map_option is_online (get_device_by_id (reg system_offline) ''dev-1'') = Some False
   \<and> trigger_ssh_exchange (Retrieved (JStr ''ssh-ed25519 AAAA master@lab'') (JStr ''SHA256:abc''))
        system_offline ''dev-1'' (Some True) =
       (Inl (HTTPException 400 ''SUT dev-1 is offline''), system_offline)
   \<and> map_option is_online (get_device_by_id (reg system_online) ''dev-1'') = Some True
   \<and> sent_to (ws system_online) ''dev-1'' = []
   \<and> sent_to (ws (snd (trigger_ssh_exchange
          (Retrieved (JStr ''ssh-ed25519 AAAA master@lab'') (JStr ''SHA256:abc''))
          system_online ''dev-1'' (Some True)))) ''dev-1'' =
       [install_master_key_message (JStr ''ssh-ed25519 AAAA master@lab'') (JStr ''SHA256:abc'')
          True]
   \<and> reg (snd (trigger_ssh_exchange
          (Retrieved (JStr ''ssh-ed25519 AAAA master@lab'') (JStr ''SHA256:abc''))
          system_online ''dev-1'' (Some True))) = reg system_online"
proof -
  let ?ka = "Retrieved (JStr ''ssh-ed25519 AAAA master@lab'') (JStr ''SHA256:abc'')"
  have c: "map_of (ws system_online) ''dev-1'' \<noteq> None"
    by (simp add: system_online_def connect_def)
  have e: "sent_to (ws system_online) ''dev-1'' = []"
    by (simp add: system_online_def connect_def sent_to_def)
  from trigger_ssh_exchange_forced [OF system_offline_device, of ?ka]
  have a: "trigger_ssh_exchange ?ka system_offline ''dev-1'' (Some True) =
       (Inl (HTTPException 400 (''SUT '' @ ''dev-1'' @ '' is offline'')), system_offline)"
    by simp
  from trigger_ssh_exchange_forced [OF system_online_device, of ?ka] c
  have b: "reg (snd (trigger_ssh_exchange ?ka system_online ''dev-1'' (Some True)))
             = reg system_online"
    and s: "sent_to (ws (snd (trigger_ssh_exchange ?ka system_online ''dev-1'' (Some True))))
              ''dev-1'' =
            sent_to (ws system_online) ''dev-1'' @
              [install_master_key_message (JStr ''ssh-ed25519 AAAA master@lab'')
                 (JStr ''SHA256:abc'') True]"
    by simp_all
  from a b s e show ?thesis
    by (simp add: system_offline_device system_online_device)
qed

text \<open>
  The claim as it was stated fails when the Master's public key cannot be read: the device
  is online with a live session, the request is forced, and no message is sent.
\<close>

theorem trigger_ssh_exchange_no_key_counterexample:
  "map_option is_online (get_device_by_id (reg system_online) ''dev-1'') = Some True
   \<and> map_of (ws system_online) ''dev-1'' \<noteq> None
   \<and> trigger_ssh_exchange (Retrieved JNull JNull) system_online ''dev-1'' (Some True) =
       (Inl (HTTPException 500 ''Failed to get Master key: 500: Master SSH key not available''),
        system_online)
   \<and> sent_to (ws (snd (trigger_ssh_exchange (Retrieved JNull JNull) system_online ''dev-1''
                         (Some True)))) ''dev-1'' = []"
proof -
  have t: "trigger_ssh_exchange (Retrieved JNull JNull) system_online ''dev-1'' (Some True) =
       (Inl (HTTPException 500 ''Failed to get Master key: 500: Master SSH key not available''),
        system_online)"
    by (simp add: trigger_ssh_exchange_def system_online_device)
  show ?thesis
    unfolding t by (simp add: system_online_device) (simp add: system_online_def connect_def sent_to_def)
qed

subsection \<open>The index invariant\<close>

text \<open>
  The registry before any registration has one index entry per address, each consistent
  with the primary dictionary, and every operation on the registry keeps it so.
\<close>

lemma registry_invariant_iff:
  "registry_invariant r \<longleftrightarrow>
     distinct (map fst (ip_to_id_mapping r))
     \<and> (\<forall>a w. map_of (ip_to_id_mapping r) a = Some w \<longrightarrow>
            (\<exists>d. map_of (devices r) w = Some d \<and> ip d = a))"
proof (cases "distinct (map fst (ip_to_id_mapping r))")
  case True
  have "index_consistent r \<longleftrightarrow>
          (\<forall>a w. (a, w) \<in> set (ip_to_id_mapping r) \<longrightarrow>
             (\<exists>d. map_of (devices r) w = Some d \<and> ip d = a))"
    unfolding index_consistent_def list_all_iff
    by (rule iffI; clarsimp split: option.splits; fastforce)
  with True show ?thesis by (simp add: registry_invariant_def)
next
  case False
  then show ?thesis by (simp add: registry_invariant_def)
qed

lemma registry_invariant_empty: "registry_invariant empty_registry"
  by (simp add: registry_invariant_iff empty_registry_def)

lemma registry_invariant_register_device:
  assumes "registry_invariant r"
  shows "registry_invariant (snd (register_device r now i p u c h cm dn pk fp))"
proof (cases "map_of (devices r) u")
  case None
  have "w \<noteq> u" if "(a, w) \<in> set (ip_to_id_mapping r)" for a w
    using assms that None unfolding registry_invariant_iff by fastforce
  with assms None show ?thesis
    by (auto simp: registry_invariant_iff register_device_def Let_def update_conv
                   distinct_update split: if_splits)
next
  case (Some d0)
  have own: "a = ip d0" if "(a, u) \<in> set (ip_to_id_mapping r)" for a
    using assms that Some unfolding registry_invariant_iff by fastforce
  from assms Some show ?thesis
    by (auto simp: registry_invariant_iff register_device_def Let_def update_conv delete_conv
                   distinct_update distinct_delete dest: own split: if_splits)
qed

lemma registry_invariant_same_ip:
  assumes "registry_invariant r" and "map_of (devices r) u = Some d" and "ip d' = ip d"
  shows "registry_invariant (r\<lparr>devices := AList.update u d' (devices r)\<rparr>)"
  using assms unfolding registry_invariant_iff by (simp add: update_conv) fastforce

lemma registry_invariant_mark_device_offline:
  "registry_invariant r \<Longrightarrow> registry_invariant (mark_device_offline r u)"
  by (cases "map_of (devices r) u")
     (simp_all add: mark_device_offline_def registry_invariant_same_ip)

lemma registry_invariant_update_master_key_status:
  "registry_invariant r \<Longrightarrow> registry_invariant (update_master_key_status r now u b)"
  by (cases "map_of (devices r) u")
     (simp_all add: update_master_key_status_def registry_invariant_same_ip)

lemma registry_invariant_pair_device:
  assumes "registry_invariant r"
  shows "registry_invariant (snd (pair_device r now u who))"
proof (cases "map_of (devices r) u")
  case None
  with assms show ?thesis by (simp add: pair_device_def)
next
  case (Some d)
  have "registry_invariant (r\<lparr>devices := AList.update u
          (d\<lparr>is_paired := True, paired_by := Some who, paired_at := Some now\<rparr>) (devices r)\<rparr>)"
    using assms Some by (rule registry_invariant_same_ip) simp
  then show ?thesis
    using Some by (simp add: pair_device_def save_paired_devices_def registry_invariant_iff)
qed

lemma registry_invariant_delete_sut:
  assumes "registry_invariant r"
  shows "registry_invariant (snd (delete_sut r u force))"
proof -
  from assms have c: "index_consistent (snd (delete_sut r u force))"
    by (simp add: registry_invariant_def delete_sut_index_consistent)
  have "distinct (map fst (ip_to_id_mapping (snd (delete_sut r u force))))"
  proof (cases "get_device_by_id r u")
    case None
    with assms show ?thesis by (simp add: delete_sut_def registry_invariant_def)
  next
    case (Some d)
    show ?thesis
    proof (cases "is_paired d \<and> \<not> force")
      case True
      with Some assms show ?thesis by (simp add: delete_sut_def registry_invariant_def)
    next
      case False
      then have "\<not> is_paired d \<or> force" by simp
      from delete_sut_registry(2) [OF Some this] assms show ?thesis
        by (simp add: registry_invariant_def distinct_delete)
    qed
  qed
  with c show ?thesis by (simp add: registry_invariant_def)
qed

subsection \<open>Registration over a device session\<close>

lemma websocket_register_registered:
  assumes "websocket_register env now s u first = (Registered ack, s')"
  obtains obj where "first = Received (JObj obj)" and "connect_error env = None"
    and "s' = s\<lparr>ws := connect (ws s) u (JObj obj),
                reg := snd (register_device (reg s) now
                         (dict_get obj ''ip'' (JStr ''unknown''))
                         (dict_get obj ''port'' (JInt 8080)) u
                         (dict_get obj ''capabilities'' (JList []))
                         (dict_get obj ''hostname'' (JStr ''''))
                         (dict_get obj ''cpu_model'' JNull)
                         (dict_get obj ''display_name'' JNull)
                         (dict_get obj ''ssh_public_key'' JNull)
                         (dict_get obj ''ssh_key_fingerprint'' JNull))\<rparr>"
    and "json_field ack ''re_exchange'' =
           Some (JBool (\<not> master_key_installed (fst (register_device (reg s) now
                         (dict_get obj ''ip'' (JStr ''unknown''))
                         (dict_get obj ''port'' (JInt 8080)) u
                         (dict_get obj ''capabilities'' (JList []))
                         (dict_get obj ''hostname'' (JStr ''''))
                         (dict_get obj ''cpu_model'' JNull)
                         (dict_get obj ''display_name'' JNull)
                         (dict_get obj ''ssh_public_key'' JNull)
                         (dict_get obj ''ssh_key_fingerprint'' JNull)))
                     \<and> \<not> key_access_raises (key_access env)))"
proof -
  from assms obtain init where f: "first = Received init"
    by (cases first) (simp_all add: websocket_register_def)
  from assms f have c: "connect_error env = None"
    by (cases "connect_error env") (simp_all add: websocket_register_def)
  from assms f c obtain obj where o: "init = JObj obj"
    by (cases init) (simp_all add: websocket_register_def Let_def)
  let ?rd = "register_device (reg s) now
                         (dict_get obj ''ip'' (JStr ''unknown''))
                         (dict_get obj ''port'' (JInt 8080)) u
                         (dict_get obj ''capabilities'' (JList []))
                         (dict_get obj ''hostname'' (JStr ''''))
                         (dict_get obj ''cpu_model'' JNull)
                         (dict_get obj ''display_name'' JNull)
                         (dict_get obj ''ssh_public_key'' JNull)
                         (dict_get obj ''ssh_key_fingerprint'' JNull)"
  from assms f c o have s': "s' = s\<lparr>ws := connect (ws s) u (JObj obj), reg := snd ?rd\<rparr>"
    by (simp add: websocket_register_def Let_def split_beta)
  from assms f c o have "json_field ack ''re_exchange'' =
           Some (JBool (\<not> master_key_installed (fst ?rd) \<and> \<not> key_access_raises (key_access env)))"
    by (cases "key_access env")
       (auto simp: websocket_register_def Let_def split_beta register_ack_def json_field_def)
  with f o c s' show ?thesis using that by blast
qed

text \<open>
  Claim C3, as the code has it. For every successful registration the \<open>re_exchange\<close> flag
  of the acknowledgment is true if and only if \<open>master_key_installed\<close> is false in the
  record of the device after the upsert and the access to the Master's key raised no
  exception. When the key manager only fails to produce the key (it returns \<open>None\<close>) the
  flag is still the negation of \<open>master_key_installed\<close>; when the access raises, the flag
  is false.
\<close>

theorem register_ack_re_exchange:
  assumes "websocket_register env now s u first = (Registered ack, s')"
  shows "\<exists>d. get_device_by_id (reg s') u = Some d
           \<and> json_field ack ''re_exchange'' =
               Some (JBool (\<not> master_key_installed d \<and> \<not> key_access_raises (key_access env)))"
proof -
  from assms obtain obj where s': "s' = s\<lparr>ws := connect (ws s) u (JObj obj),
                reg := snd (register_device (reg s) now
                         (dict_get obj ''ip'' (JStr ''unknown''))
                         (dict_get obj ''port'' (JInt 8080)) u
                         (dict_get obj ''capabilities'' (JList []))
                         (dict_get obj ''hostname'' (JStr ''''))
                         (dict_get obj ''cpu_model'' JNull)
                         (dict_get obj ''display_name'' JNull)
                         (dict_get obj ''ssh_public_key'' JNull)
                         (dict_get obj ''ssh_key_fingerprint'' JNull))\<rparr>"
    and f: "json_field ack ''re_exchange'' =
           Some (JBool (\<not> master_key_installed (fst (register_device (reg s) now
                         (dict_get obj ''ip'' (JStr ''unknown''))
                         (dict_get obj ''port'' (JInt 8080)) u
                         (dict_get obj ''capabilities'' (JList []))
                         (dict_get obj ''hostname'' (JStr ''''))
                         (dict_get obj ''cpu_model'' JNull)
                         (dict_get obj ''display_name'' JNull)
                         (dict_get obj ''ssh_public_key'' JNull)
                         (dict_get obj ''ssh_key_fingerprint'' JNull)))
                     \<and> \<not> key_access_raises (key_access env)))"
    by (rule websocket_register_registered)
  show ?thesis
    unfolding s' using f by (simp add: get_device_by_id_def register_device_lookup)
qed

lemma register_offline_dev1:
  "fst (register_device (reg system_offline) 7 (JStr ''10.0.0.5'') (JInt 8080) ''dev-1''
          (JList []) (JStr '''') JNull JNull JNull JNull) =
     \<lparr>unique_id = ''dev-1'', ip = JStr ''10.0.0.5'', port = JInt 8080,
      hostname = JStr '''', cpu_model = JNull, display_name = JStr ''host-1'',
      capabilities = JList [], is_online = True, last_seen = 7,
      is_paired = False, paired_by = None, paired_at = None, session_id = 2,
      last_ip_change = None, binding_history = [], ssh_public_key = JNull,
      ssh_fingerprint = JNull, master_key_installed = False,
      master_key_installed_at = None\<rparr>"
proof -
  have "session_rule (reg system_offline) = fresh_session"
    by (simp add: system_offline_def registry_one_eval mark_device_offline_def)
  with system_offline_device show ?thesis
    by (simp add: register_device_def get_device_by_id_def Let_def fresh_session_def)
qed

lemma websocket_register_offline_dev1:
  assumes "connect_error env = None"
  shows "fst (websocket_register env 7 system_offline ''dev-1''
               (Received (JObj [(''ip'', JStr ''10.0.0.5'')]))) =
         Registered (register_ack ''dev-1'' False
            (case key_access env of Retrieved k f \<Rightarrow> k | FingerprintRaises k e \<Rightarrow> k
             | _ \<Rightarrow> JNull)
            (case key_access env of Retrieved k f \<Rightarrow> f | _ \<Rightarrow> JNull)
            (\<not> key_access_raises (key_access env)) 2)"
  using assms register_offline_dev1
  by (cases "key_access env")
     (simp_all add: websocket_register_def Let_def split_beta dict_get_def)

theorem register_ack_re_exchange_witness:
  "fst (websocket_register env_key_unreadable 7 system_offline ''dev-1''
          (Received (JObj [(''ip'', JStr ''10.0.0.5'')]))) =
     Registered (register_ack ''dev-1'' False JNull JNull True 2)
   \<and> json_field (register_ack ''dev-1'' False JNull JNull True 2) ''re_exchange'' =
       Some (JBool True)
   \<and> map_option master_key_installed
        (get_device_by_id
           (reg (snd (websocket_register env_key_unreadable 7 system_offline ''dev-1''
                        (Received (JObj [(''ip'', JStr ''10.0.0.5'')]))))) ''dev-1'') =
       Some False"
proof -
  let ?w = "websocket_register env_key_unreadable 7 system_offline ''dev-1''
              (Received (JObj [(''ip'', JStr ''10.0.0.5'')]))"
  have c: "connect_error env_key_unreadable = None"
    and k: "key_access env_key_unreadable = Retrieved JNull JNull"
    by (simp_all add: env_key_unreadable_def)
  have a: "fst ?w = Registered (register_ack ''dev-1'' False JNull JNull True 2)"
    using websocket_register_offline_dev1 [OF c] by (simp add: k)
  then have "?w = (Registered (register_ack ''dev-1'' False JNull JNull True 2), snd ?w)"
    by (metis prod.collapse)
  from register_ack_re_exchange [OF this] obtain d
    where d: "get_device_by_id (reg (snd ?w)) ''dev-1'' = Some d"
      and j: "json_field (register_ack ''dev-1'' False JNull JNull True 2) ''re_exchange'' =
               Some (JBool (\<not> master_key_installed d
                             \<and> \<not> key_access_raises (key_access env_key_unreadable)))"
    by blast
  have j': "json_field (register_ack ''dev-1'' False JNull JNull True 2) ''re_exchange'' =
              Some (JBool True)"
    by (simp add: json_field_def register_ack_def)
  from j j' have "\<not> master_key_installed d" by simp
  with a j' d show ?thesis by simp
qed

text \<open>
  The claim as it was stated fails when the key manager cannot be loaded: the registration
  succeeds, \<open>master_key_installed\<close> is false in the record, and the flag is false.
\<close>

theorem register_ack_re_exchange_counterexample:
  "fst (websocket_register env_key_manager_down 7 system_offline ''dev-1''
          (Received (JObj [(''ip'', JStr ''10.0.0.5'')]))) =
     Registered (register_ack ''dev-1'' False JNull JNull False 2)
   \<and> json_field (register_ack ''dev-1'' False JNull JNull False 2) ''re_exchange'' =
       Some (JBool False)
   \<and> map_option master_key_installed
        (get_device_by_id
           (reg (snd (websocket_register env_key_manager_down 7 system_offline ''dev-1''
                        (Received (JObj [(''ip'', JStr ''10.0.0.5'')]))))) ''dev-1'') =
       Some False"
proof -
  have c: "connect_error env_key_manager_down = None"
    and k: "key_access env_key_manager_down = ManagerRaises ''No module named ssh''"
    by (simp_all add: env_key_manager_down_def)
  have a: "fst (websocket_register env_key_manager_down 7 system_offline ''dev-1''
          (Received (JObj [(''ip'', JStr ''10.0.0.5'')]))) =
     Registered (register_ack ''dev-1'' False JNull JNull False 2)"
    using websocket_register_offline_dev1 [OF c] by (simp add: k)
  have j: "json_field (register_ack ''dev-1'' False JNull JNull False 2) ''re_exchange'' =
       Some (JBool False)"
    by (simp add: json_field_def register_ack_def)
  have r: "reg (snd (websocket_register env_key_manager_down 7 system_offline ''dev-1''
                        (Received (JObj [(''ip'', JStr ''10.0.0.5'')])))) =
           snd (register_device (reg system_offline) 7 (JStr ''10.0.0.5'') (JInt 8080) ''dev-1''
                  (JList []) (JStr '''') JNull JNull JNull JNull)"
    by (simp add: websocket_register_def c k Let_def split_beta dict_get_def)
  show ?thesis
    unfolding r using a j
    by (simp add: get_device_by_id_def register_device_lookup register_offline_dev1)
qed

lemma websocket_register_object:
  assumes "connect_error env = None"
  shows "fst (websocket_register env now s u (Received (JObj obj))) \<noteq> Closed"
    and "reg (snd (websocket_register env now s u (Received (JObj obj)))) =
           snd (register_device (reg s) now
                  (dict_get obj ''ip'' (JStr ''unknown''))
                  (dict_get obj ''port'' (JInt 8080)) u
                  (dict_get obj ''capabilities'' (JList []))
                  (dict_get obj ''hostname'' (JStr ''''))
                  (dict_get obj ''cpu_model'' JNull)
                  (dict_get obj ''display_name'' JNull)
                  (dict_get obj ''ssh_public_key'' JNull)
                  (dict_get obj ''ssh_key_fingerprint'' JNull))"
  using assms by (simp_all add: websocket_register_def Let_def split_beta)

lemma register_device_ip:
  "ip (fst (register_device r now i p u c h cm dn pk fp)) = i"
  by (simp add: register_device_def Let_def split: option.splits)

lemma websocket_register_refused:
  assumes "connect_error env \<noteq> None \<or> (\<forall>obj. first \<noteq> Received (JObj obj))"
  shows "fst (websocket_register env now s u first) = Closed"
    and "reg (snd (websocket_register env now s u first)) = mark_device_offline (reg s) u"
proof -
  have "fst (websocket_register env now s u first) = Closed
        \<and> reg (snd (websocket_register env now s u first)) = mark_device_offline (reg s) u"
  proof (cases first)
    case (Received init)
    show ?thesis
    proof (cases "connect_error env")
      case None
      with assms Received have "\<forall>obj. init \<noteq> JObj obj" by simp
      with None Received show ?thesis
        by (cases init) (simp_all add: websocket_register_def finally_cleanup_def)
    next
      case (Some e)
      with Received show ?thesis
        by (simp add: websocket_register_def finally_cleanup_def)
    qed
  next
    case Disconnected
    then show ?thesis by (simp add: websocket_register_def finally_cleanup_def)
  next
    case (ReceiveError e)
    then show ?thesis by (simp add: websocket_register_def finally_cleanup_def)
  qed
  then show "fst (websocket_register env now s u first) = Closed"
    and "reg (snd (websocket_register env now s u first)) = mark_device_offline (reg s) u"
    by simp_all
qed

text \<open>
  Claim C4, as the code has it. A registration payload that is an object without an \<open>ip\<close>
  member is not refused: when the connection manager admits the session, the
  acknowledgment is sent and the record of the device is created or updated with the
  address \<open>unknown\<close>. The transport is refused when no payload is received, when the
  payload is not an object, or when the admission raises; then \<open>register_device\<close> is not
  called, no record is created, the records of other devices are as they were, and a record
  that the device already had is only marked offline.
\<close>

theorem registration_without_ip:
  "(\<forall>obj. connect_error env = None \<and> map_of obj ''ip'' = None \<longrightarrow>
      fst (websocket_register env now s u (Received (JObj obj))) \<noteq> Closed
      \<and> map_option ip
          (get_device_by_id (reg (snd (websocket_register env now s u (Received (JObj obj))))) u)
          = Some (JStr ''unknown''))
   \<and> (connect_error env \<noteq> None \<or> (\<forall>obj. first \<noteq> Received (JObj obj)) \<longrightarrow>
        fst (websocket_register env now s u first) = Closed
        \<and> reg (snd (websocket_register env now s u first)) = mark_device_offline (reg s) u
        \<and> (\<forall>v. (get_device_by_id (reg (snd (websocket_register env now s u first))) v = None)
                = (get_device_by_id (reg s) v = None))
        \<and> (\<forall>v. v \<noteq> u \<longrightarrow>
              get_device_by_id (reg (snd (websocket_register env now s u first))) v
              = get_device_by_id (reg s) v)
        \<and> (\<forall>d. get_device_by_id (reg s) u = Some d \<longrightarrow>
              get_device_by_id (reg (snd (websocket_register env now s u first))) u
              = Some (d\<lparr>is_online := False\<rparr>)))"
proof (intro conjI impI allI)
  fix obj :: "(string \<times> json) list"
  assume a: "connect_error env = None \<and> map_of obj ''ip'' = None"
  then have c: "connect_error env = None" and i: "dict_get obj ''ip'' (JStr ''unknown'') = JStr ''unknown''"
    by (simp_all add: dict_get_def)
  show "fst (websocket_register env now s u (Received (JObj obj))) \<noteq> Closed"
    using c by (rule websocket_register_object)
  show "map_option ip
          (get_device_by_id (reg (snd (websocket_register env now s u (Received (JObj obj))))) u)
          = Some (JStr ''unknown'')"
    unfolding websocket_register_object(2) [OF c]
    by (simp add: get_device_by_id_def register_device_lookup register_device_ip i)
next
  assume r: "connect_error env \<noteq> None \<or> (\<forall>obj. first \<noteq> Received (JObj obj))"
  note w = websocket_register_refused [OF r, of now s u]
  show "fst (websocket_register env now s u first) = Closed" by (rule w(1))
  show "reg (snd (websocket_register env now s u first)) = mark_device_offline (reg s) u"
    by (rule w(2))
  show "(get_device_by_id (reg (snd (websocket_register env now s u first))) v = None)
          = (get_device_by_id (reg s) v = None)" for v
    unfolding w(2) by (simp add: get_device_by_id_def mark_device_offline_lookup)
  show "get_device_by_id (reg (snd (websocket_register env now s u first))) v
          = get_device_by_id (reg s) v" if "v \<noteq> u" for v
    unfolding w(2) using that by (simp add: get_device_by_id_def mark_device_offline_lookup)
  show "get_device_by_id (reg (snd (websocket_register env now s u first))) u
          = Some (d\<lparr>is_online := False\<rparr>)" if "get_device_by_id (reg s) u = Some d" for d
    unfolding w(2) using that by (simp add: get_device_by_id_def mark_device_offline_lookup)
qed

theorem registration_without_ip_witness:
  "connect_error env_working = None
   \<and> map_of [(''hostname'', JStr ''host-9'')] ''ip'' = None
   \<and> fst (websocket_register env_working 3 system_empty ''dev-9''
            (Received (JObj [(''hostname'', JStr ''host-9'')]))) \<noteq> Closed
   \<and> map_option ip
        (get_device_by_id
           (reg (snd (websocket_register env_working 3 system_empty ''dev-9''
                        (Received (JObj [(''hostname'', JStr ''host-9'')]))))) ''dev-9'')
       = Some (JStr ''unknown'')
   \<and> fst (websocket_register env_working 3 system_empty ''dev-9'' (Received (JStr ''hello'')))
       = Closed
   \<and> get_device_by_id
        (reg (snd (websocket_register env_working 3 system_empty ''dev-9''
                     (Received (JStr ''hello''))))) ''dev-9'' = None"
proof -
  have c: "connect_error env_working = None" by (simp add: env_working_def)
  have m: "map_of [(''hostname'', JStr ''host-9'')] ''ip'' = None" by simp
  have n: "\<forall>obj. Received (JStr ''hello'') \<noteq> Received (JObj obj)" by simp
  have e: "get_device_by_id (reg system_empty) ''dev-9'' = None"
    by (simp add: system_empty_def empty_registry_def get_device_by_id_def)
  note t = registration_without_ip [of env_working 3 system_empty "''dev-9''"
                                      "Received (JStr ''hello'')"]
  from t c m have a: "fst (websocket_register env_working 3 system_empty ''dev-9''
            (Received (JObj [(''hostname'', JStr ''host-9'')]))) \<noteq> Closed"
    and b: "map_option ip
        (get_device_by_id
           (reg (snd (websocket_register env_working 3 system_empty ''dev-9''
                        (Received (JObj [(''hostname'', JStr ''host-9'')]))))) ''dev-9'')
       = Some (JStr ''unknown'')"
    by blast+
  from t n have d: "fst (websocket_register env_working 3 system_empty ''dev-9''
                          (Received (JStr ''hello''))) = Closed"
    and f: "(get_device_by_id
        (reg (snd (websocket_register env_working 3 system_empty ''dev-9''
                     (Received (JStr ''hello''))))) ''dev-9'' = None)
           = (get_device_by_id (reg system_empty) ''dev-9'' = None)"
    by blast+
  from c m a b d f e show ?thesis by simp
qed

text \<open>
  The claim as it was stated fails for a payload without \<open>ip\<close>: the device was unknown, the
  payload has no \<open>ip\<close> member, and afterwards the acknowledgment has been sent and the
  registry holds a record for the device with the address \<open>unknown\<close>.
\<close>

theorem registration_without_ip_counterexample:
  "get_device_by_id (reg system_empty) ''dev-9'' = None
   \<and> map_of [(''hostname'', JStr ''host-9'')] ''ip'' = None
   \<and> fst (websocket_register env_working 3 system_empty ''dev-9''
            (Received (JObj [(''hostname'', JStr ''host-9'')])))
       = Registered (register_ack ''dev-9'' False (JStr ''ssh-ed25519 AAAA master@lab'')
                       (JStr ''SHA256:abc'') True 1)
   \<and> map_option ip
        (get_device_by_id
           (reg (snd (websocket_register env_working 3 system_empty ''dev-9''
                        (Received (JObj [(''hostname'', JStr ''host-9'')]))))) ''dev-9'')
       = Some (JStr ''unknown'')
   \<and> map_option is_online
        (get_device_by_id
           (reg (snd (websocket_register env_working 3 system_empty ''dev-9''
                        (Received (JObj [(''hostname'', JStr ''host-9'')]))))) ''dev-9'')
       = Some True"
  by (simp add: system_empty_def empty_registry_def env_working_def get_device_by_id_def
                websocket_register_def register_device_def dict_get_def Let_def
                fresh_session_def)

subsection \<open>Messages of a registered device\<close>

lemma register_device_keeps_flag:
  assumes "map_of (devices (snd (register_device r now i p u c h cm dn pk fp))) v = Some d'"
      and "master_key_installed d'"
  shows "\<exists>d. map_of (devices r) v = Some d \<and> master_key_installed d"
proof (cases "v = u")
  case True
  with assms have "master_key_installed (fst (register_device r now i p u c h cm dn pk fp))"
    by (simp add: register_device_lookup)
  then show ?thesis
    unfolding register_device_master_key_installed True
    by (cases "map_of (devices r) u") simp_all
next
  case False
  with assms show ?thesis by (simp add: register_device_lookup)
qed

lemma handle_message_installed:
  assumes "dict_get msg ''type'' JNull = JStr ''master_key_installed''"
      and "py_truthy (dict_get msg ''success'' (JBool False))"
  shows "handle_message now r u init (Received (JObj msg)) =
     (Replies [JObj [(''type'', JStr ''master_key_installed_ack''), (''success'', JBool True)]],
      update_master_key_status r now u True)"
  using assms by (simp add: handle_message_def Let_def)

lemma handle_message_not_installed:
  assumes "dict_get msg ''type'' JNull = JStr ''master_key_installed''"
      and "\<not> py_truthy (dict_get msg ''success'' (JBool False))"
  shows "handle_message now r u init (Received (JObj msg)) =
     (Replies [JObj [(''type'', JStr ''master_key_installed_ack''), (''success'', JBool False),
                     (''error'', dict_get msg ''error'' (JStr ''Unknown error''))]], r)"
  using assms by (simp add: handle_message_def Let_def)

lemma handle_message_flag_set:
  assumes b: "get_device_by_id r v = Some d" "\<not> master_key_installed d"
      and a: "get_device_by_id (snd (handle_message now r u init incoming)) v = Some d'"
             "master_key_installed d'"
  shows "v = u \<and> master_key_installed_at d' = Some now
         \<and> (\<exists>msg. incoming = Received (JObj msg)
               \<and> dict_get msg ''type'' JNull = JStr ''master_key_installed''
               \<and> py_truthy (dict_get msg ''success'' (JBool False)))"
proof (cases incoming)
  case (Received message)
  show ?thesis
  proof (cases message)
    case (JObj msg)
    let ?t = "dict_get msg ''type'' JNull"
    show ?thesis
    proof (cases "?t = JStr ''heartbeat''")
      case True
      with a Received JObj have
        "map_of (devices (snd (register_device r now (dict_get init ''ip'' (JStr ''unknown''))
            (dict_get init ''port'' (JInt 8080)) u (dict_get init ''capabilities'' (JList []))
            (dict_get init ''hostname'' (JStr '''')) JNull JNull JNull JNull))) v = Some d'"
        by (simp add: handle_message_def get_device_by_id_def)
      from register_device_keeps_flag [OF this a(2)] b show ?thesis
        by (simp add: get_device_by_id_def)
    next
      case False
      show ?thesis
      proof (cases "?t = JStr ''master_key_installed''
                    \<and> py_truthy (dict_get msg ''success'' (JBool False))")
        case True
        then have h: "snd (handle_message now r u init incoming)
                      = update_master_key_status r now u True"
          using Received JObj by (simp add: handle_message_installed)
        from a b have "v = u"
          unfolding h
          by (auto simp: get_device_by_id_def update_master_key_status_lookup split: if_splits)
        moreover from a b have "master_key_installed_at d' = Some now"
          unfolding h
          by (auto simp: get_device_by_id_def update_master_key_status_lookup split: if_splits)
        ultimately show ?thesis using True Received JObj by blast
      next
        case nt: False
        with False Received JObj have "snd (handle_message now r u init incoming) = r"
          by (auto simp: handle_message_def Let_def)
        with a b show ?thesis by simp
      qed
    qed
  qed (use a b Received in \<open>simp_all add: handle_message_def\<close>)
qed  (use a b in \<open>simp_all add: handle_message_def\<close>)

lemma handle_message_heartbeat:
  assumes "dict_get msg ''type'' JNull = JStr ''heartbeat''"
  shows "handle_message now r u init (Received (JObj msg)) =
     (Replies [JObj [(''type'', JStr ''heartbeat_ack'')]],
      snd (register_device r now
             (dict_get init ''ip'' (JStr ''unknown''))
             (dict_get init ''port'' (JInt 8080)) u
             (dict_get init ''capabilities'' (JList []))
             (dict_get init ''hostname'' (JStr ''''))
             JNull JNull JNull JNull))"
  using assms by (simp add: handle_message_def Let_def)

text \<open>
  The other operations on the registry never set \<open>master_key_installed\<close>: a record that
  has the flag after a registration, a forced re-exchange request or a delete had it before.
\<close>

lemma websocket_register_keeps_flag:
  assumes "get_device_by_id (reg (snd (websocket_register env now s u first))) v = Some d'"
      and "master_key_installed d'"
  shows "\<exists>d. get_device_by_id (reg s) v = Some d \<and> master_key_installed d"
proof (cases "connect_error env \<noteq> None \<or> (\<forall>obj. first \<noteq> Received (JObj obj))")
  case True
  from assms show ?thesis
    unfolding websocket_register_refused(2) [OF True]
    by (auto simp: get_device_by_id_def mark_device_offline_lookup split: if_splits)
next
  case False
  then obtain obj where f: "first = Received (JObj obj)" and c: "connect_error env = None"
    by auto
  from assms show ?thesis
    unfolding f websocket_register_object(2) [OF c] get_device_by_id_def
    by (rule register_device_keeps_flag)
qed

lemma trigger_ssh_exchange_registry:
  "reg (snd (trigger_ssh_exchange ka s u request)) = reg s"
  by (cases ka)
     (simp_all add: trigger_ssh_exchange_def Let_def split_beta split: option.splits)

lemma delete_sut_keeps_flag:
  assumes "get_device_by_id (snd (delete_sut r u force)) v = Some d'"
  shows "get_device_by_id r v = Some d'"
proof (cases "get_device_by_id r u")
  case None
  with assms show ?thesis by (simp add: delete_sut_def)
next
  case (Some d)
  show ?thesis
  proof (cases "is_paired d \<and> \<not> force")
    case True
    with Some assms show ?thesis by (simp add: delete_sut_def)
  next
    case False
    then have "\<not> is_paired d \<or> force" by simp
    from assms show ?thesis
      unfolding get_device_by_id_def delete_sut_registry(1) [OF Some \<open>\<not> is_paired d \<or> force\<close>]
      by (simp add: delete_conv split: if_splits)
  qed
qed

text \<open>
  Claim C5, as the code has it. The handler tests the \<open>success\<close> member of a
  \<open>master_key_installed\<close> message with \<open>if success:\<close>. When the member counts as true for
  Python (\<open>true\<close>, and also a number other than 0 or a string, list or object that is not
  empty), the message is answered with a success acknowledgment and
  \<open>master_key_installed\<close> of the record of the device is set, with the time of the message
  as \<open>master_key_installed_at\<close>. When it does not (\<open>false\<close>, absent, \<open>null\<close>, 0 or empty),
  the message is answered with a failure acknowledgment that carries the error, and the
  registry stays as it was. Whatever is received on the session, a record whose
  \<open>master_key_installed\<close> was false has it true afterwards only if it is the record of this
  device, the time stamp has been recorded, and what was received is a
  \<open>master_key_installed\<close> message whose \<open>success\<close> member counts as true.
\<close>

theorem master_key_installed_only_on_success:
  "(\<forall>msg. dict_get msg ''type'' JNull = JStr ''master_key_installed''
           \<and> py_truthy (dict_get msg ''success'' (JBool False)) \<longrightarrow>
      handle_message now r u init (Received (JObj msg)) =
        (Replies [JObj [(''type'', JStr ''master_key_installed_ack''),
                        (''success'', JBool True)]],
         update_master_key_status r now u True)
      \<and> (\<forall>d. get_device_by_id r u = Some d \<longrightarrow>
            get_device_by_id (update_master_key_status r now u True) u =
              Some (d\<lparr>master_key_installed := True, master_key_installed_at := Some now\<rparr>)))
   \<and> (\<forall>msg. dict_get msg ''type'' JNull = JStr ''master_key_installed''
           \<and> \<not> py_truthy (dict_get msg ''success'' (JBool False)) \<longrightarrow>
        handle_message now r u init (Received (JObj msg)) =
          (Replies [JObj [(''type'', JStr ''master_key_installed_ack''),
                          (''success'', JBool False),
                          (''error'', dict_get msg ''error'' (JStr ''Unknown error''))]], r))
   \<and> (\<forall>v d d'. get_device_by_id r v = Some d \<and> \<not> master_key_installed d
           \<and> get_device_by_id (snd (handle_message now r u init incoming)) v = Some d'
           \<and> master_key_installed d' \<longrightarrow>
        v = u \<and> master_key_installed_at d' = Some now
        \<and> (\<exists>msg. incoming = Received (JObj msg)
              \<and> dict_get msg ''type'' JNull = JStr ''master_key_installed''
              \<and> py_truthy (dict_get msg ''success'' (JBool False))
              \<and> (\<forall>b. map_of msg ''success'' = Some (JBool b) \<longrightarrow> b)))"
proof (intro conjI impI allI)
  fix msg :: "(string \<times> json) list"
  assume a: "dict_get msg ''type'' JNull = JStr ''master_key_installed''
             \<and> py_truthy (dict_get msg ''success'' (JBool False))"
  then show "handle_message now r u init (Received (JObj msg)) =
        (Replies [JObj [(''type'', JStr ''master_key_installed_ack''),
                        (''success'', JBool True)]],
         update_master_key_status r now u True)"
    by (simp add: handle_message_installed)
  fix d
  assume "get_device_by_id r u = Some d"
  then show "get_device_by_id (update_master_key_status r now u True) u =
              Some (d\<lparr>master_key_installed := True, master_key_installed_at := Some now\<rparr>)"
    by (simp add: get_device_by_id_def update_master_key_status_lookup)
next
  fix msg :: "(string \<times> json) list"
  assume a: "dict_get msg ''type'' JNull = JStr ''master_key_installed''
             \<and> \<not> py_truthy (dict_get msg ''success'' (JBool False))"
  then show "handle_message now r u init (Received (JObj msg)) =
          (Replies [JObj [(''type'', JStr ''master_key_installed_ack''),
                          (''success'', JBool False),
                          (''error'', dict_get msg ''error'' (JStr ''Unknown error''))]], r)"
    by (simp add: handle_message_not_installed)
next
  fix v d d'
  assume a: "get_device_by_id r v = Some d \<and> \<not> master_key_installed d
           \<and> get_device_by_id (snd (handle_message now r u init incoming)) v = Some d'
           \<and> master_key_installed d'"
  then have f: "v = u \<and> master_key_installed_at d' = Some now
         \<and> (\<exists>msg. incoming = Received (JObj msg)
               \<and> dict_get msg ''type'' JNull = JStr ''master_key_installed''
               \<and> py_truthy (dict_get msg ''success'' (JBool False)))"
    using handle_message_flag_set [of r v d now u init incoming d'] by blast
  then show "v = u" and "master_key_installed_at d' = Some now" by simp_all
  from f obtain msg where m: "incoming = Received (JObj msg)"
      "dict_get msg ''type'' JNull = JStr ''master_key_installed''"
      "py_truthy (dict_get msg ''success'' (JBool False))"
    by blast
  then have "\<forall>b. map_of msg ''success'' = Some (JBool b) \<longrightarrow> b"
    by (auto simp: dict_get_def)
  with m show "\<exists>msg. incoming = Received (JObj msg)
              \<and> dict_get msg ''type'' JNull = JStr ''master_key_installed''
              \<and> py_truthy (dict_get msg ''success'' (JBool False))
              \<and> (\<forall>b. map_of msg ''success'' = Some (JBool b) \<longrightarrow> b)"
    by blast
qed

theorem master_key_installed_only_on_success_witness:
  "dict_get [(''type'', JStr ''master_key_installed''), (''success'', JBool True)] ''type'' JNull
     = JStr ''master_key_installed''
   \<and> map_option master_key_installed (get_device_by_id registry_one ''dev-1'') = Some False
   \<and> fst (handle_message 9 registry_one ''dev-1'' [(''ip'', JStr ''10.0.0.5'')]
            (Received (JObj [(''type'', JStr ''master_key_installed''),
                             (''success'', JBool True)]))) =
       Replies [JObj [(''type'', JStr ''master_key_installed_ack''), (''success'', JBool True)]]
   \<and> map_option master_key_installed
        (get_device_by_id
           (snd (handle_message 9 registry_one ''dev-1'' [(''ip'', JStr ''10.0.0.5'')]
                   (Received (JObj [(''type'', JStr ''master_key_installed''),
                                    (''success'', JBool True)])))) ''dev-1'') = Some True
   \<and> map_option master_key_installed_at
        (get_device_by_id
           (snd (handle_message 9 registry_one ''dev-1'' [(''ip'', JStr ''10.0.0.5'')]
                   (Received (JObj [(''type'', JStr ''master_key_installed''),
                                    (''success'', JBool True)])))) ''dev-1'') = Some (Some 9)
   \<and> handle_message 9 registry_one ''dev-1'' [(''ip'', JStr ''10.0.0.5'')]
        (Received (JObj [(''type'', JStr ''master_key_installed''), (''success'', JBool False),
                         (''error'', JStr ''denied'')])) =
       (Replies [JObj [(''type'', JStr ''master_key_installed_ack''), (''success'', JBool False),
                       (''error'', JStr ''denied'')]], registry_one)"
proof -
  let ?ok = "[(''type'', JStr ''master_key_installed''), (''success'', JBool True)]"
  let ?no = "[(''type'', JStr ''master_key_installed''), (''success'', JBool False),
              (''error'', JStr ''denied'')]"
  let ?init = "[(''ip'', JStr ''10.0.0.5'')]"
  obtain d where d: "get_device_by_id registry_one ''dev-1'' = Some d"
    and nd: "\<not> master_key_installed d"
    by (simp add: get_device_by_id_def registry_one_eval)
  have ok: "dict_get ?ok ''type'' JNull = JStr ''master_key_installed''
            \<and> py_truthy (dict_get ?ok ''success'' (JBool False))"
    by (simp add: dict_get_def)
  have no: "dict_get ?no ''type'' JNull = JStr ''master_key_installed''
            \<and> \<not> py_truthy (dict_get ?no ''success'' (JBool False))"
    by (simp add: dict_get_def)
  have e: "dict_get ?no ''error'' (JStr ''Unknown error'') = JStr ''denied''"
    by (simp add: dict_get_def)
  note t = master_key_installed_only_on_success
             [of 9 registry_one "''dev-1''" ?init "Received (JObj ?ok)"]
  from t ok have h: "handle_message 9 registry_one ''dev-1'' ?init (Received (JObj ?ok)) =
        (Replies [JObj [(''type'', JStr ''master_key_installed_ack''),
                        (''success'', JBool True)]],
         update_master_key_status registry_one 9 ''dev-1'' True)"
    by blast
  from t ok d have g: "get_device_by_id (update_master_key_status registry_one 9 ''dev-1'' True)
            ''dev-1'' =
          Some (d\<lparr>master_key_installed := True, master_key_installed_at := Some 9\<rparr>)"
    by blast
  from t no have f: "handle_message 9 registry_one ''dev-1'' ?init (Received (JObj ?no)) =
          (Replies [JObj [(''type'', JStr ''master_key_installed_ack''),
                          (''success'', JBool False),
                          (''error'', dict_get ?no ''error'' (JStr ''Unknown error''))]],
           registry_one)"
    by blast
  from h g have g': "get_device_by_id
      (snd (handle_message 9 registry_one ''dev-1'' ?init (Received (JObj ?ok)))) ''dev-1'' =
      Some (d\<lparr>master_key_installed := True, master_key_installed_at := Some 9\<rparr>)"
    by simp
  have md: "master_key_installed
      (d\<lparr>master_key_installed := True, master_key_installed_at := Some 9\<rparr>)"
    by simp
  from t have "get_device_by_id registry_one ''dev-1'' = Some d \<and> \<not> master_key_installed d
      \<and> get_device_by_id
           (snd (handle_message 9 registry_one ''dev-1'' ?init (Received (JObj ?ok)))) ''dev-1''
          = Some (d\<lparr>master_key_installed := True, master_key_installed_at := Some 9\<rparr>)
      \<and> master_key_installed
           (d\<lparr>master_key_installed := True, master_key_installed_at := Some 9\<rparr>)
      \<longrightarrow> master_key_installed_at
           (d\<lparr>master_key_installed := True, master_key_installed_at := Some 9\<rparr>) = Some 9"
    by blast
  with d nd g' md have at: "master_key_installed_at
      (d\<lparr>master_key_installed := True, master_key_installed_at := Some 9\<rparr>) = Some 9"
    by blast
  have "dict_get ?ok ''type'' JNull = JStr ''master_key_installed''" by (simp add: dict_get_def)
  with d nd h g f e at show ?thesis by simp
qed

text \<open>
  The claim as it was stated fails for a \<open>success\<close> member that is not a boolean: the
  message carries the string \<open>false\<close> as \<open>success\<close>, which is not \<open>success: true\<close>, and the
  record goes from \<open>master_key_installed\<close> false to true and a success acknowledgment is
  sent.
\<close>

theorem master_key_installed_string_counterexample:
  "map_option master_key_installed (get_device_by_id registry_one ''dev-1'') = Some False
   \<and> map_of [(''type'', JStr ''master_key_installed''), (''success'', JStr ''false'')]
        ''success'' \<noteq> Some (JBool True)
   \<and> fst (handle_message 9 registry_one ''dev-1'' [(''ip'', JStr ''10.0.0.5'')]
            (Received (JObj [(''type'', JStr ''master_key_installed''),
                             (''success'', JStr ''false'')]))) =
       Replies [JObj [(''type'', JStr ''master_key_installed_ack''), (''success'', JBool True)]]
   \<and> map_option master_key_installed
        (get_device_by_id
           (snd (handle_message 9 registry_one ''dev-1'' [(''ip'', JStr ''10.0.0.5'')]
                   (Received (JObj [(''type'', JStr ''master_key_installed''),
                                    (''success'', JStr ''false'')])))) ''dev-1'') = Some True"
  by (simp add: handle_message_def dict_get_def get_device_by_id_def registry_one_eval
                update_master_key_status_def)

lemma register_device_record:
  "is_online (fst (register_device r now i p u c h cm dn pk fp))"
  "port (fst (register_device r now i p u c h cm dn pk fp)) = p"
  "capabilities (fst (register_device r now i p u c h cm dn pk fp)) = c"
  "hostname (fst (register_device r now i p u c h cm dn pk fp)) = h"
  by (simp_all add: register_device_def Let_def split: option.splits)

text \<open>
  After a successful registration the record of the device is online and holds the address,
  port, capabilities and host name that the handler reads from the registration payload,
  which is what it passes to the registry again on every heartbeat of the session.
\<close>

lemma websocket_register_record:
  assumes "connect_error env = None"
  shows "\<exists>d. get_device_by_id
                (reg (snd (websocket_register env now s u (Received (JObj init))))) u = Some d
             \<and> is_online d
             \<and> ip d = dict_get init ''ip'' (JStr ''unknown'')
             \<and> port d = dict_get init ''port'' (JInt 8080)
             \<and> capabilities d = dict_get init ''capabilities'' (JList [])
             \<and> hostname d = dict_get init ''hostname'' (JStr '''')"
  unfolding websocket_register_object(2) [OF assms]
  by (simp add: get_device_by_id_def register_device_lookup register_device_ip
                register_device_record)

text \<open>
  Claim C8, as the code has it. A heartbeat is answered with \<open>heartbeat_ack\<close>, and its
  outcome is that of a heartbeat that carries its type and nothing else, so whatever else
  the message holds is ignored. For the registry a heartbeat is a registration of the
  device with the registration payload of the session: afterwards the device has a record
  whose \<open>last_seen\<close> is the time of the heartbeat, which is online, and whose address, port,
  capabilities and host name are those of the registration payload; the records of other
  devices are as they were. Where the device had a record, its identity, CPU model, display
  name, pairing fields and trust fields are as they were, and when that record was online
  and held the values of the registration payload, nothing in it changes but \<open>last_seen\<close>
  and whatever the registry does with the session identifier on a registration. Where the
  device had no record (it was deleted while the session went on), the heartbeat creates
  one, unpaired and without the Master's key.
\<close>

theorem heartbeat_registers_again:
  assumes "dict_get msg ''type'' JNull = JStr ''heartbeat''"
  shows "handle_message now r u init (Received (JObj msg)) =
           handle_message now r u init (Received (JObj [(''type'', JStr ''heartbeat'')]))
       \<and> fst (handle_message now r u init (Received (JObj msg))) =
           Replies [JObj [(''type'', JStr ''heartbeat_ack'')]]
       \<and> (\<exists>d'. get_device_by_id (snd (handle_message now r u init (Received (JObj msg)))) u
                  = Some d'
             \<and> last_seen d' = now \<and> is_online d'
             \<and> ip d' = dict_get init ''ip'' (JStr ''unknown'')
             \<and> port d' = dict_get init ''port'' (JInt 8080)
             \<and> capabilities d' = dict_get init ''capabilities'' (JList [])
             \<and> hostname d' = dict_get init ''hostname'' (JStr '''')
             \<and> (\<forall>d. get_device_by_id r u = Some d \<longrightarrow>
                   unique_id d' = unique_id d \<and> cpu_model d' = cpu_model d
                   \<and> display_name d' = display_name d
                   \<and> is_paired d' = is_paired d \<and> paired_by d' = paired_by d
                   \<and> paired_at d' = paired_at d
                   \<and> ssh_public_key d' = ssh_public_key d
                   \<and> ssh_fingerprint d' = ssh_fingerprint d
                   \<and> master_key_installed d' = master_key_installed d
                   \<and> master_key_installed_at d' = master_key_installed_at d
                   \<and> (is_online d
                        \<and> ip d = dict_get init ''ip'' (JStr ''unknown'')
                        \<and> port d = dict_get init ''port'' (JInt 8080)
                        \<and> capabilities d = dict_get init ''capabilities'' (JList [])
                        \<and> hostname d = dict_get init ''hostname'' (JStr '''')
                        \<longrightarrow> d'\<lparr>session_id := session_id d\<rparr> = d\<lparr>last_seen := now\<rparr>))
             \<and> (get_device_by_id r u = None \<longrightarrow>
                   unique_id d' = u \<and> \<not> is_paired d' \<and> \<not> master_key_installed d'
                   \<and> master_key_installed_at d' = None))
       \<and> (\<forall>v. v \<noteq> u \<longrightarrow>
             get_device_by_id (snd (handle_message now r u init (Received (JObj msg)))) v =
             get_device_by_id r v)"
proof -
  note h = handle_message_heartbeat [OF assms, of now r u init]
  have t: "dict_get [(''type'', JStr ''heartbeat'')] ''type'' JNull = JStr ''heartbeat''"
    by (simp add: dict_get_def)
  show ?thesis
  proof (cases "map_of (devices r) u")
    case None
    show ?thesis
      unfolding h handle_message_heartbeat [OF t]
      by (simp add: get_device_by_id_def register_device_lookup None
                    register_device_new [OF None])
  next
    case (Some d)
    note e = register_device_existing [OF Some, of now]
    have same: "d'\<lparr>session_id := session_id d\<rparr> = d\<lparr>last_seen := now\<rparr>"
      if "d' = d\<lparr>ip := ip d, port := port d, hostname := hostname d,
                   capabilities := capabilities d, is_online := True, last_seen := now,
                   session_id := n, last_ip_change := last_ip_change d,
                   binding_history := binding_history d\<rparr>" and "is_online d" for d' n
      using that by (cases d) simp
    show ?thesis
      unfolding h handle_message_heartbeat [OF t]
      by (auto simp: get_device_by_id_def register_device_lookup Some e intro: same)
  qed
qed

lemma registry_paired_device:
  "get_device_by_id registry_paired ''dev-1'' =
     Some \<lparr>unique_id = ''dev-1'', ip = JStr ''10.0.0.5'', port = JInt 8080,
           hostname = JStr ''host-1'', cpu_model = JNull, display_name = JStr ''host-1'',
           capabilities = JList [JStr ''gpu''], is_online = True, last_seen = 1,
           is_paired = True, paired_by = Some ''operator'', paired_at = Some 2, session_id = 1,
           last_ip_change = None, binding_history = [], ssh_public_key = JNull,
           ssh_fingerprint = JNull, master_key_installed = False,
           master_key_installed_at = None\<rparr>"
  by (simp add: get_device_by_id_def registry_paired_eval)

theorem heartbeat_registers_again_witness:
  "dict_get [(''type'', JStr ''heartbeat''), (''ip'', JStr ''10.9.9.9''),
             (''hostname'', JStr ''other'')] ''type'' JNull = JStr ''heartbeat''
   \<and> fst (handle_message 9 registry_paired ''dev-1'' registration_payload
            (Received (JObj [(''type'', JStr ''heartbeat''), (''ip'', JStr ''10.9.9.9''),
                             (''hostname'', JStr ''other'')])))
       = Replies [JObj [(''type'', JStr ''heartbeat_ack'')]]
   \<and> map_option (\<lambda>d'. d'\<lparr>session_id := 1\<rparr>)
        (get_device_by_id
           (snd (handle_message 9 registry_paired ''dev-1'' registration_payload
                   (Received (JObj [(''type'', JStr ''heartbeat''), (''ip'', JStr ''10.9.9.9''),
                                    (''hostname'', JStr ''other'')])))) ''dev-1'')
       = Some \<lparr>unique_id = ''dev-1'', ip = JStr ''10.0.0.5'', port = JInt 8080,
           hostname = JStr ''host-1'', cpu_model = JNull, display_name = JStr ''host-1'',
           capabilities = JList [JStr ''gpu''], is_online = True, last_seen = 9,
           is_paired = True, paired_by = Some ''operator'', paired_at = Some 2, session_id = 1,
           last_ip_change = None, binding_history = [], ssh_public_key = JNull,
           ssh_fingerprint = JNull, master_key_installed = False,
           master_key_installed_at = None\<rparr>"
proof -
  let ?msg = "[(''type'', JStr ''heartbeat''), (''ip'', JStr ''10.9.9.9''),
               (''hostname'', JStr ''other'')]"
  let ?d = "\<lparr>unique_id = ''dev-1'', ip = JStr ''10.0.0.5'', port = JInt 8080,
           hostname = JStr ''host-1'', cpu_model = JNull, display_name = JStr ''host-1'',
           capabilities = JList [JStr ''gpu''], is_online = True, last_seen = 1,
           is_paired = True, paired_by = Some ''operator'', paired_at = Some 2, session_id = 1,
           last_ip_change = None, binding_history = [], ssh_public_key = JNull,
           ssh_fingerprint = JNull, master_key_installed = False,
           master_key_installed_at = None\<rparr>"
  have ty: "dict_get ?msg ''type'' JNull = JStr ''heartbeat''" by (simp add: dict_get_def)
  have held: "is_online ?d
      \<and> ip ?d = dict_get registration_payload ''ip'' (JStr ''unknown'')
      \<and> port ?d = dict_get registration_payload ''port'' (JInt 8080)
      \<and> capabilities ?d = dict_get registration_payload ''capabilities'' (JList [])
      \<and> hostname ?d = dict_get registration_payload ''hostname'' (JStr '''')"
    by (simp add: dict_get_def registration_payload_def)
  from heartbeat_registers_again [OF ty, of 9 registry_paired "''dev-1''" registration_payload]
    registry_paired_device held
  obtain d' where
    a: "fst (handle_message 9 registry_paired ''dev-1'' registration_payload
               (Received (JObj ?msg))) = Replies [JObj [(''type'', JStr ''heartbeat_ack'')]]"
    and g: "get_device_by_id (snd (handle_message 9 registry_paired ''dev-1''
               registration_payload (Received (JObj ?msg)))) ''dev-1'' = Some d'"
    and s: "d'\<lparr>session_id := session_id ?d\<rparr> = ?d\<lparr>last_seen := 9\<rparr>"
    by blast
  from ty a g s show ?thesis by simp
qed

lemma system_superseded_device:
  "get_device_by_id (reg system_superseded) ''dev-1'' =
     Some \<lparr>unique_id = ''dev-1'', ip = JStr ''10.0.0.5'', port = JInt 8080,
           hostname = JStr ''host-1'', cpu_model = JNull, display_name = JStr ''host-1'',
           capabilities = JList [JStr ''gpu''], is_online = False, last_seen = 2,
           is_paired = False, paired_by = None, paired_at = None, session_id = 2,
           last_ip_change = None, binding_history = [], ssh_public_key = JNull,
           ssh_fingerprint = JNull, master_key_installed = False,
           master_key_installed_at = None\<rparr>"
  by (simp add: system_superseded_def system_empty_def empty_registry_def env_working_def
                registration_payload_def websocket_register_def finally_cleanup_def
                register_device_def mark_device_offline_def get_device_by_id_def
                dict_get_def fresh_session_def Let_def)

text \<open>
  The claim as it was stated fails for a heartbeat on the second of two sessions of a
  device, after the handler of the first session has marked the device offline on leaving:
  the record is offline before the heartbeat and online after it, so a field other than
  \<open>last_seen\<close> has changed.
\<close>

theorem heartbeat_marks_online_counterexample:
  "map_option is_online (get_device_by_id (reg system_superseded) ''dev-1'') = Some False
   \<and> fst (handle_message 4 (reg system_superseded) ''dev-1'' registration_payload
            (Received (JObj [(''type'', JStr ''heartbeat'')])))
       = Replies [JObj [(''type'', JStr ''heartbeat_ack'')]]
   \<and> map_option is_online
        (get_device_by_id
           (snd (handle_message 4 (reg system_superseded) ''dev-1'' registration_payload
                   (Received (JObj [(''type'', JStr ''heartbeat'')])))) ''dev-1'')
       = Some True"
proof -
  have m: "map_of (devices (reg system_superseded)) ''dev-1'' =
     Some \<lparr>unique_id = ''dev-1'', ip = JStr ''10.0.0.5'', port = JInt 8080,
           hostname = JStr ''host-1'', cpu_model = JNull, display_name = JStr ''host-1'',
           capabilities = JList [JStr ''gpu''], is_online = False, last_seen = 2,
           is_paired = False, paired_by = None, paired_at = None, session_id = 2,
           last_ip_change = None, binding_history = [], ssh_public_key = JNull,
           ssh_fingerprint = JNull, master_key_installed = False,
           master_key_installed_at = None\<rparr>"
    using system_superseded_device by (simp add: get_device_by_id_def)
  show ?thesis
    by (simp add: m handle_message_def dict_get_def get_device_by_id_def
                  register_device_lookup register_device_existing [OF m])
qed

text \<open>
  Over the message loop: a session that receives heartbeats only stays in the loop and
  answers each of them with \<open>heartbeat_ack\<close>.
\<close>

lemma message_loop_heartbeats:
  assumes "\<forall>(t, m) \<in> set ms. \<exists>msg. m = Received (JObj msg)
              \<and> dict_get msg ''type'' JNull = JStr ''heartbeat''"
  shows "\<exists>r'. message_loop r u init ms =
              (replicate (length ms) (JObj [(''type'', JStr ''heartbeat_ack'')]), r', True)"
  using assms
proof (induction ms arbitrary: r)
  case Nil
  then show ?case by simp
next
  case (Cons a ms)
  obtain t m where a: "a = (t, m)" by (cases a)
  from Cons.prems a obtain msg where m: "m = Received (JObj msg)"
    and ty: "dict_get msg ''type'' JNull = JStr ''heartbeat''"
    by auto
  let ?r1 = "snd (handle_message t r u init (Received (JObj msg)))"
  have rest: "\<forall>(t, m) \<in> set ms. \<exists>msg. m = Received (JObj msg)
              \<and> dict_get msg ''type'' JNull = JStr ''heartbeat''"
    using Cons.prems by simp
  from Cons.IH [OF rest, of ?r1] obtain r' where
    "message_loop ?r1 u init ms =
       (replicate (length ms) (JObj [(''type'', JStr ''heartbeat_ack'')]), r', True)"
    by blast
  then show ?case
    unfolding a m by (simp add: handle_message_heartbeat [OF ty])
qed

subsection \<open>Notification fan-out\<close>

lemma enqueue_loop_fst:
  "fst (enqueue_loop ev cs dead) =
     map (\<lambda>(c, q). case put_nowait q ev of Inl _ \<Rightarrow> (c, q) | Inr q' \<Rightarrow> (c, q')) cs"
proof (induction cs arbitrary: dead)
  case Nil
  show ?case by simp
next
  case (Cons a cs)
  obtain c q where a: "a = (c, q)" by (cases a)
  show ?case
    by (cases "put_nowait q ev") (simp_all add: a split_beta Cons.IH)
qed

lemma enqueue_loop_snd:
  "snd (enqueue_loop ev cs dead) =
     dead @ map fst (filter (\<lambda>(c, q). enqueue_fails ev q) cs)"
proof (induction cs arbitrary: dead)
  case Nil
  show ?case by simp
next
  case (Cons a cs)
  obtain c q where a: "a = (c, q)" by (cases a)
  show ?case
    by (cases "put_nowait q ev") (simp_all add: a split_beta Cons.IH enqueue_fails_def)
qed

lemma fold_discard:
  "fold discard ds cs = filter (\<lambda>(c, q). c \<notin> set ds) cs"
proof (induction ds arbitrary: cs)
  case Nil
  show ?case by simp
next
  case (Cons d ds)
  have "filter (\<lambda>(c, q). c \<notin> set ds) (discard d cs) = filter (\<lambda>(c, q). c \<notin> set (d # ds)) cs"
    by (induction cs) (auto simp: discard_def)
  with Cons show ?case by simp
qed

lemma set_map_filter_Some:
  "set (List.map_filter f xs) = {y. \<exists>x \<in> set xs. f x = Some y}"
  by (induction xs) (auto split: option.splits)

lemma broadcast_sse_event_filter:
  "broadcast_sse_event ev cs =
     filter (\<lambda>(c, q). c \<notin> fst ` {cq \<in> set cs. enqueue_fails ev (snd cq)})
       (map (\<lambda>(c, q). case put_nowait q ev of Inl _ \<Rightarrow> (c, q) | Inr q' \<Rightarrow> (c, q')) cs)"
proof -
  obtain cs' dead where e: "enqueue_loop ev cs [] = (cs', dead)"
    by (cases "enqueue_loop ev cs []")
  have c: "cs' = map (\<lambda>(c, q). case put_nowait q ev of Inl _ \<Rightarrow> (c, q) | Inr q' \<Rightarrow> (c, q')) cs"
    using enqueue_loop_fst [of ev cs "[]"] e by simp
  have d: "dead = map fst (filter (\<lambda>(c, q). enqueue_fails ev q) cs)"
    using enqueue_loop_snd [of ev cs "[]"] e by simp
  have "set dead = fst ` {cq \<in> set cs. enqueue_fails ev (snd cq)}"
    unfolding d by force
  then show ?thesis
    by (simp add: broadcast_sse_event_def e fold_discard c)
qed

lemma broadcast_sse_event_map_filter:
  assumes "distinct (map fst cs)"
  shows "broadcast_sse_event ev cs = List.map_filter (delivered ev) cs"
proof -
  have "filter (\<lambda>(c, q). c \<notin> fst ` {cq \<in> set all. enqueue_fails ev (snd cq)})
          (map (\<lambda>(c, q). case put_nowait q ev of Inl _ \<Rightarrow> (c, q) | Inr q' \<Rightarrow> (c, q')) cs)
        = List.map_filter (delivered ev) cs"
    if "set cs \<subseteq> set all" "distinct (map fst all)" for all
    using that
  proof (induction cs)
    case Nil
    show ?case by (simp add: map_filter_simps)
  next
    case (Cons a cs)
    obtain c q where a: "a = (c, q)" by (cases a)
    have mem: "(c, q) \<in> set all" using Cons.prems a by simp
    have uniq: "q2 = q" if "(c, q2) \<in> set all" for q2
      using that mem Cons.prems(2) by (meson eq_key_imp_eq_value)
    have ih: "filter (\<lambda>(c, q). c \<notin> fst ` {cq \<in> set all. enqueue_fails ev (snd cq)})
          (map (\<lambda>(c, q). case put_nowait q ev of Inl _ \<Rightarrow> (c, q) | Inr q' \<Rightarrow> (c, q')) cs)
        = List.map_filter (delivered ev) cs"
      using Cons by simp
    show ?case
    proof (cases "put_nowait q ev")
      case (Inl e)
      then have "enqueue_fails ev q" by (simp add: enqueue_fails_def)
      with mem have "c \<in> fst ` {cq \<in> set all. enqueue_fails ev (snd cq)}" by force
      moreover have "delivered ev (c, q) = None"
        using Inl by (simp add: delivered_def)
      ultimately show ?thesis
        using Inl ih by (simp add: a map_filter_simps)
    next
      case (Inr q')
      then have nf: "\<not> enqueue_fails ev q" by (simp add: enqueue_fails_def)
      have "c \<notin> fst ` {cq \<in> set all. enqueue_fails ev (snd cq)}"
      proof
        assume "c \<in> fst ` {cq \<in> set all. enqueue_fails ev (snd cq)}"
        then obtain q2 where "(c, q2) \<in> set all" "enqueue_fails ev q2" by auto
        with uniq nf show False by blast
      qed
      moreover have "delivered ev (c, q) = Some (c, q')"
        using Inr by (simp add: delivered_def)
      ultimately show ?thesis
        using Inr ih by (simp add: a map_filter_simps)
    qed
  qed
  from this [of cs] assms show ?thesis
    by (simp add: broadcast_sse_event_filter)
qed

text \<open>
  Claim C10. A broadcast enqueues with \<open>put_nowait\<close> only, which returns or raises at once
  and never waits for room in a queue. For every event and every set of observers: an observer
  whose enqueue fails is no longer in the observer set after the broadcast; every observer
  whose enqueue succeeds is still there with the event appended to its queue, whatever
  happened to the observers before or after it; and the broadcast adds no observer.
\<close>

theorem broadcast_sse_event_isolates_failures:
  assumes "distinct (map fst clients)"
  shows "(\<forall>c q. (c, q) \<in> set clients \<and> enqueue_fails ev q \<longrightarrow>
            c \<notin> fst ` set (broadcast_sse_event ev clients))
       \<and> (\<forall>c q. (c, q) \<in> set clients \<and> \<not> enqueue_fails ev q \<longrightarrow>
            (c, q\<lparr>items := items q @ [ev]\<rparr>) \<in> set (broadcast_sse_event ev clients))
       \<and> (\<forall>c q'. (c, q') \<in> set (broadcast_sse_event ev clients) \<longrightarrow>
            (\<exists>q. (c, q) \<in> set clients \<and> put_nowait q ev = Inr q'))"
proof -
  have r: "set (broadcast_sse_event ev clients) =
           {y. \<exists>x \<in> set clients. delivered ev x = Some y}"
    unfolding broadcast_sse_event_map_filter [OF assms]
    by (rule set_map_filter_Some)
  have a: "c \<notin> fst ` set (broadcast_sse_event ev clients)"
    if m: "(c, q) \<in> set clients" and f: "enqueue_fails ev q" for c q
  proof
    assume "c \<in> fst ` set (broadcast_sse_event ev clients)"
    then obtain q' x where x: "x \<in> set clients" "delivered ev x = Some (c, q')"
      unfolding r by auto
    then have fx: "fst x = c" and px: "put_nowait (snd x) ev = Inr q'"
      by (auto simp: delivered_def split: sum.splits)
    have "(c, snd x) \<in> set clients" using x(1) fx by (metis prod.collapse)
    with m assms have "snd x = q" by (meson eq_key_imp_eq_value)
    with px f show False by (simp add: enqueue_fails_def)
  qed
  have b: "(c, q\<lparr>items := items q @ [ev]\<rparr>) \<in> set (broadcast_sse_event ev clients)"
    if m: "(c, q) \<in> set clients" and f: "\<not> enqueue_fails ev q" for c q
  proof -
    from f have "put_nowait q ev = Inr (q\<lparr>items := items q @ [ev]\<rparr>)"
      by (auto simp: enqueue_fails_def put_nowait_def split: if_splits)
    then have "delivered ev (c, q) = Some (c, q\<lparr>items := items q @ [ev]\<rparr>)"
      by (simp add: delivered_def)
    with m show ?thesis unfolding r by blast
  qed
  have c: "\<exists>q. (c, q) \<in> set clients \<and> put_nowait q ev = Inr q'"
    if "(c, q') \<in> set (broadcast_sse_event ev clients)" for c q'
  proof -
    from that obtain x where x: "x \<in> set clients" "delivered ev x = Some (c, q')"
      unfolding r by auto
    then have "fst x = c" "put_nowait (snd x) ev = Inr q'"
      by (auto simp: delivered_def split: sum.splits)
    with x(1) show ?thesis by (metis prod.collapse)
  qed
  from a b c show ?thesis by blast
qed

theorem broadcast_sse_event_isolates_failures_witness:
  "distinct (map fst
     [(0::nat, \<lparr>items = [], maxsize = 0, is_shutdown = False\<rparr>),
      (1, \<lparr>items = [''x''], maxsize = 1, is_shutdown = False\<rparr>),
      (2, \<lparr>items = [''y''], maxsize = 0, is_shutdown = False\<rparr>)])
   \<and> enqueue_fails ''e'' \<lparr>items = [''x''], maxsize = 1, is_shutdown = False\<rparr>
   \<and> 1 \<notin> fst ` set (broadcast_sse_event ''e''
     [(0::nat, \<lparr>items = [], maxsize = 0, is_shutdown = False\<rparr>),
      (1, \<lparr>items = [''x''], maxsize = 1, is_shutdown = False\<rparr>),
      (2, \<lparr>items = [''y''], maxsize = 0, is_shutdown = False\<rparr>)])
   \<and> (2, \<lparr>items = [''y'', ''e''], maxsize = 0, is_shutdown = False\<rparr>) \<in> set (broadcast_sse_event ''e''
     [(0::nat, \<lparr>items = [], maxsize = 0, is_shutdown = False\<rparr>),
      (1, \<lparr>items = [''x''], maxsize = 1, is_shutdown = False\<rparr>),
      (2, \<lparr>items = [''y''], maxsize = 0, is_shutdown = False\<rparr>)])"
proof -
  let ?q1 = "\<lparr>items = [''x''], maxsize = 1, is_shutdown = False\<rparr>"
  let ?q2 = "\<lparr>items = [''y''], maxsize = 0, is_shutdown = False\<rparr>"
  let ?cs = "[(0::nat, \<lparr>items = [], maxsize = 0, is_shutdown = False\<rparr>), (1, ?q1), (2, ?q2)]"
  have d: "distinct (map fst ?cs)" by simp
  have f: "enqueue_fails ''e'' ?q1"
    by (simp add: enqueue_fails_def put_nowait_def full_def)
  have g: "\<not> enqueue_fails ''e'' ?q2"
    by (simp add: enqueue_fails_def put_nowait_def full_def)
  note t = broadcast_sse_event_isolates_failures [OF d, of "''e''"]
  from t have "(1, ?q1) \<in> set ?cs \<and> enqueue_fails ''e'' ?q1 \<longrightarrow>
      1 \<notin> fst ` set (broadcast_sse_event ''e'' ?cs)" by blast
  with f have a: "1 \<notin> fst ` set (broadcast_sse_event ''e'' ?cs)" by simp
  from t have "(2, ?q2) \<in> set ?cs \<and> \<not> enqueue_fails ''e'' ?q2 \<longrightarrow>
      (2, ?q2\<lparr>items := items ?q2 @ [''e'']\<rparr>) \<in> set (broadcast_sse_event ''e'' ?cs)" by blast
  with g have b: "(2, ?q2\<lparr>items := items ?q2 @ [''e'']\<rparr>) \<in> set (broadcast_sse_event ''e'' ?cs)"
    by simp
  from d f a b show ?thesis by simp
qed

end
